theory Spec2Isabelle
  imports Main "HOL-Library.Word"
begin

unbundle bit_operations_syntax

section \<open>Frame codec (package tcpserver, protocol file)\<close>

type_synonym byte = "8 word"
type_synonym uint32 = "32 word"
type_synonym int64 = "64 word"

definition ProtocolVersion :: byte where
  "ProtocolVersion = 1"

definition MaxMessageSize :: uint32 where
  "MaxMessageSize = 1024 * 1024"

text \<open>The message types are plain \<open>uint8\<close> values; the closed set of the protocol.\<close>

definition TypeAuth :: byte where "TypeAuth = 1"
definition TypeAuthOK :: byte where "TypeAuthOK = 2"
definition TypePing :: byte where "TypePing = 3"
definition TypePong :: byte where "TypePong = 4"
definition TypeReport :: byte where "TypeReport = 5"
definition TypeCMD :: byte where "TypeCMD = 6"
definition TypeACK :: byte where "TypeACK = 7"
definition TypeErr :: byte where "TypeErr = 8"

record Message =
  Version :: byte
  Type :: byte
  Payload :: "byte list"

text \<open>\<open>binary.BigEndian.PutUint32\<close> and \<open>binary.BigEndian.Uint32\<close>.\<close>

definition PutUint32 :: "uint32 \<Rightarrow> byte list" where
  "PutUint32 v = [ucast (drop_bit 24 v), ucast (drop_bit 16 v), ucast (drop_bit 8 v), ucast v]"

definition Uint32 :: "byte list \<Rightarrow> uint32" where
  "Uint32 b = (ucast (b ! 3)) OR push_bit 8 (ucast (b ! 2)) OR push_bit 16 (ucast (b ! 1))
               OR push_bit 24 (ucast (b ! 0))"

datatype read_error =
    ErrReadLength
  | ErrTooLarge uint32
  | ErrReadMessage
  | ErrTooShort
  | ErrVersion byte

text \<open>
  \<open>ReadMessage\<close> on the bytes that the connection still delivers. \<open>io.ReadFull\<close> fails
  when the stream ends (EOF, deadline) before the requested number of bytes arrived; on
  success the message is returned with the rest of the stream.
\<close>

definition ReadMessage :: "byte list \<Rightarrow> read_error + (Message \<times> byte list)" where
  "ReadMessage conn =
     (if length conn < 4 then Inl ErrReadLength
      else let len = Uint32 (take 4 conn); rest = drop 4 conn in
        if len > MaxMessageSize then Inl (ErrTooLarge len)
        else if length rest < unat len then Inl ErrReadMessage
        else let msgBuf = take (unat len) rest in
          if len < 2 then Inl ErrTooShort
          else let msg = \<lparr>Version = msgBuf ! 0, Type = msgBuf ! 1, Payload = drop 2 msgBuf\<rparr> in
            if Version msg \<noteq> ProtocolVersion then Inl (ErrVersion (Version msg))
            else Inr (msg, drop (unat len) rest))"

text \<open>\<open>WriteMessage\<close>: the bytes handed to \<open>conn.Write\<close>; \<open>uint32(len(msgBuf))\<close> truncates.\<close>

definition WriteMessage :: "Message \<Rightarrow> byte list" where
  "WriteMessage msg =
     (let msgBuf = Version msg # Type msg # Payload msg;
          lengthBuf = PutUint32 (word_of_nat (length msgBuf))
      in lengthBuf @ msgBuf)"

section \<open>Sessions and the session manager (session.go)\<close>

text \<open>
  A \<open>time.Time\<close> is the number of nanoseconds since the Unix epoch, a
  \<open>time.Duration\<close> a signed 64-bit count of nanoseconds. \<open>Time.Sub\<close> saturates.
\<close>

type_synonym Time = int
type_synonym Duration = int64

definition Sub :: "Time \<Rightarrow> Time \<Rightarrow> Duration" where
  "Sub t u =
     (let d = t - u
      in if d > 2 ^ 63 - 1 then word_of_int (2 ^ 63 - 1)
         else if d < - (2 ^ 63) then word_of_int (- (2 ^ 63))
         else word_of_int d)"

text \<open>
  A \<open>*Session\<close> is an address into the heap of session objects. The connection is
  represented by the bytes written to it (\<open>outbox\<close>); \<open>closed\<close> says that \<open>closeCh\<close>
  is closed, which \<open>closeOnce\<close> does together with closing the connection.
\<close>

type_synonym ref = nat

record Session =
  ID :: string
  SN :: string
  AppID :: string
  RemoteAddr :: string
  LoginAt :: Time
  LastPing :: Time
  Meta :: "(string \<times> string) list"
  outbox :: "byte list"
  closed :: bool

text \<open>
  The two indices of the manager, with the heap that its \<open>*Session\<close> values point into.
\<close>

record SessionManager =
  heap :: "ref \<Rightarrow> Session"
  sessions :: "string \<rightharpoonup> ref"
  snToID :: "string \<rightharpoonup> string"

definition NewSession :: "string \<Rightarrow> string \<Rightarrow> Time \<Rightarrow> Session" where
  "NewSession uuid addr now =
     \<lparr>ID = uuid, SN = [], AppID = [], RemoteAddr = addr, LoginAt = now, LastPing = now,
      Meta = [], outbox = [], closed = False\<rparr>"

definition IsExpired :: "Session \<Rightarrow> Time \<Rightarrow> Duration \<Rightarrow> bool" where
  "IsExpired s now timeout \<longleftrightarrow> timeout <s Sub now (LastPing s)"

definition IsClosed :: "Session \<Rightarrow> bool" where
  "IsClosed s \<longleftrightarrow> closed s"

definition Session_Close :: "ref \<Rightarrow> SessionManager \<Rightarrow> SessionManager" where
  "Session_Close p m = m\<lparr>heap := (heap m)(p := (heap m p)\<lparr>closed := True\<rparr>)\<rparr>"

definition UpdatePing :: "ref \<Rightarrow> Time \<Rightarrow> SessionManager \<Rightarrow> SessionManager" where
  "UpdatePing p now m = m\<lparr>heap := (heap m)(p := (heap m p)\<lparr>LastPing := now\<rparr>)\<rparr>"

definition NewSessionManager :: "(ref \<Rightarrow> Session) \<Rightarrow> SessionManager" where
  "NewSessionManager h = \<lparr>heap = h, sessions = Map.empty, snToID = Map.empty\<rparr>"

text \<open>The inner block of \<open>Add\<close>: the prior holder of the SN is closed and deleted.\<close>

definition evict :: "string \<Rightarrow> SessionManager \<Rightarrow> SessionManager" where
  "evict sn m =
     (case snToID m sn of
        None \<Rightarrow> m
      | Some oldID \<Rightarrow>
          (case sessions m oldID of
             None \<Rightarrow> m
           | Some oldSession \<Rightarrow>
               let m' = Session_Close oldSession m
               in m'\<lparr>sessions := (sessions m')(oldID := None)\<rparr>))"

definition Add :: "ref \<Rightarrow> SessionManager \<Rightarrow> SessionManager" where
  "Add p m =
     (let session = heap m p;
          m1 = (if SN session \<noteq> []
                then let m' = evict (SN session) m
                     in m'\<lparr>snToID := (snToID m')(SN session \<mapsto> ID session)\<rparr>
                else m)
      in m1\<lparr>sessions := (sessions m1)(ID session \<mapsto> p)\<rparr>)"

definition Remove :: "string \<Rightarrow> SessionManager \<Rightarrow> SessionManager" where
  "Remove sessionID m =
     (case sessions m sessionID of
        None \<Rightarrow> m
      | Some p \<Rightarrow>
          let m1 = Session_Close p m;
              m2 = m1\<lparr>sessions := (sessions m1)(sessionID := None)\<rparr>
          in if SN (heap m2 p) \<noteq> []
             then m2\<lparr>snToID := (snToID m2)(SN (heap m2 p) := None)\<rparr>
             else m2)"

definition Get :: "string \<Rightarrow> SessionManager \<Rightarrow> ref option" where
  "Get sessionID m = sessions m sessionID"

definition GetBySN :: "string \<Rightarrow> SessionManager \<Rightarrow> ref option" where
  "GetBySN sn m =
     (case snToID m sn of
        None \<Rightarrow> None
      | Some sessionID \<Rightarrow>
          (case sessions m sessionID of
             None \<Rightarrow> None
           | Some p \<Rightarrow> if \<not> IsClosed (heap m p) then Some p else None))"


text \<open>
  \<open>CleanupExpired\<close>: the first loop collects the expired ids, the second closes and
  deletes each of them with the SN entry of its session. The deletions touch different
  keys, so the result does not depend on the iteration order.
\<close>

definition expired :: "SessionManager \<Rightarrow> Time \<Rightarrow> Duration \<Rightarrow> string set" where
  "expired m now timeout = {k. \<exists>p. sessions m k = Some p \<and> IsExpired (heap m p) now timeout}"

definition CleanupExpired :: "Time \<Rightarrow> Duration \<Rightarrow> SessionManager \<Rightarrow> SessionManager" where
  "CleanupExpired now timeout m =
     (let ex = expired m now timeout;
          gone = {p. \<exists>k \<in> ex. sessions m k = Some p}
      in \<lparr>heap = (\<lambda>p. if p \<in> gone then (heap m p)\<lparr>closed := True\<rparr> else heap m p),
          sessions = (\<lambda>k. if k \<in> ex then None else sessions m k),
          snToID = (\<lambda>sn. if sn \<noteq> [] \<and> (\<exists>p \<in> gone. SN (heap m p) = sn) then None
                          else snToID m sn)\<rparr>)"

text \<open>The count that \<open>CleanupExpired\<close> returns: the length of the list of expired ids.\<close>

definition CleanupExpired_count :: "Time \<Rightarrow> Duration \<Rightarrow> SessionManager \<Rightarrow> nat" where
  "CleanupExpired_count now timeout m = card (expired m now timeout)"

definition Shutdown :: "SessionManager \<Rightarrow> SessionManager" where
  "Shutdown m =
     \<lparr>heap = (\<lambda>p. if p \<in> ran (sessions m) then (heap m p)\<lparr>closed := True\<rparr> else heap m p),
      sessions = Map.empty, snToID = Map.empty\<rparr>"

text \<open>
  The three assignments of \<open>handleAuth\<close> to the session that authenticates,
  \<open>session.SN = auth.SN\<close>, \<open>session.AppID = auth.AppID\<close> and \<open>session.Meta = auth.Meta\<close>.
  They are made without the lock of the manager, before \<open>Add\<close> is called, also when the
  session is registered already (a second Auth frame on the same connection).
\<close>

definition set_identity :: "ref \<Rightarrow> string \<Rightarrow> string \<Rightarrow> (string \<times> string) list
    \<Rightarrow> SessionManager \<Rightarrow> SessionManager" where
  "set_identity p sn appid meta m =
     m\<lparr>heap := (heap m)(p := (heap m p)\<lparr>SN := sn, AppID := appid, Meta := meta\<rparr>)\<rparr>"

text \<open>A frame written to the connection of a session.\<close>

definition append_outbox :: "ref \<Rightarrow> byte list \<Rightarrow> SessionManager \<Rightarrow> SessionManager" where
  "append_outbox p bs m =
     m\<lparr>heap := (heap m)(p := (heap m p)\<lparr>outbox := outbox (heap m p) @ bs\<rparr>)\<rparr>"

text \<open>
  The states of the manager and of the sessions it points to. It starts empty over any
  heap. The steps are the operations of the manager, each under its lock, and the writes
  that the other goroutines make to session objects between them: a new session object
  at an address that is not registered, the assignments of \<open>handleAuth\<close>, a frame
  written, \<open>Close\<close> and \<open>UpdatePing\<close>. Any step may follow any other, as the goroutines
  of the server interleave.
\<close>

inductive reachable :: "SessionManager \<Rightarrow> bool" where
  init: "reachable (NewSessionManager h)"
| alloc: "reachable m \<Longrightarrow> p \<notin> ran (sessions m) \<Longrightarrow> reachable (m\<lparr>heap := (heap m)(p := s)\<rparr>)"
| identify: "reachable m \<Longrightarrow> reachable (set_identity p sn appid meta m)"
| send: "reachable m \<Longrightarrow> reachable (append_outbox p bs m)"
| add: "reachable m \<Longrightarrow> reachable (Add p m)"
| remove: "reachable m \<Longrightarrow> reachable (Remove k m)"
| cleanup: "reachable m \<Longrightarrow> reachable (CleanupExpired now timeout m)"
| shutdown: "reachable m \<Longrightarrow> reachable (Shutdown m)"
| close: "reachable m \<Longrightarrow> reachable (Session_Close p m)"
| ping: "reachable m \<Longrightarrow> reachable (UpdatePing p now m)"

text \<open>
  The same steps, except that the assignments of \<open>handleAuth\<close> and the \<open>Add\<close> that
  follows them are one step: no other step falls between the write of \<open>SN\<close> and the
  registration under it.
\<close>

inductive orderly :: "SessionManager \<Rightarrow> bool" where
  init: "orderly (NewSessionManager h)"
| alloc: "orderly m \<Longrightarrow> p \<notin> ran (sessions m) \<Longrightarrow> orderly (m\<lparr>heap := (heap m)(p := s)\<rparr>)"
| auth: "orderly m \<Longrightarrow> orderly (Add p (set_identity p sn appid meta m))"
| send: "orderly m \<Longrightarrow> orderly (append_outbox p bs m)"
| add: "orderly m \<Longrightarrow> orderly (Add p m)"
| remove: "orderly m \<Longrightarrow> orderly (Remove k m)"
| cleanup: "orderly m \<Longrightarrow> orderly (CleanupExpired now timeout m)"
| shutdown: "orderly m \<Longrightarrow> orderly (Shutdown m)"
| close: "orderly m \<Longrightarrow> orderly (Session_Close p m)"
| ping: "orderly m \<Longrightarrow> orderly (UpdatePing p now m)"



text \<open>Three sessions that claim the same SN; the third one is already closed.\<close>

definition demo_heap :: "ref \<Rightarrow> Session" where
  "demo_heap = (\<lambda>_. NewSession ''id-0'' ''10.0.0.9:1'' 0)
     (1 := (NewSession ''id-1'' ''10.0.0.1:1'' 0)\<lparr>SN := ''SN1''\<rparr>,
      2 := (NewSession ''id-2'' ''10.0.0.2:1'' 0)\<lparr>SN := ''SN1''\<rparr>,
      3 := (NewSession ''id-3'' ''10.0.0.3:1'' 0)\<lparr>SN := ''SN1'', closed := True\<rparr>)"





section \<open>Authenticator and nonce store (package security)\<close>

text \<open>\<open>fmt.Sprintf("%d", ts)\<close>: the decimal representation of a signed integer.\<close>

fun digits :: "nat \<Rightarrow> string" where
  "digits n = (if n < 10 then [char_of (48 + n)]
               else digits (n div 10) @ [char_of (48 + n mod 10)])"

declare digits.simps [simp del]

definition decimal :: "int \<Rightarrow> string" where
  "decimal i = (if i < 0 then CHR ''-'' # digits (nat (- i)) else digits (nat i))"

text \<open>
  \<open>MemoryNonceStore\<close>: the map from a nonce to its expiry time. It is the store that
  \<open>NewServer\<close> gives to the authenticator, and the only implementation of \<open>NonceStore\<close>.
\<close>

type_synonym MemoryNonceStore = "string \<rightharpoonup> Time"

definition NewMemoryNonceStore :: MemoryNonceStore where
  "NewMemoryNonceStore = Map.empty"

definition HasNonce :: "MemoryNonceStore \<Rightarrow> string \<Rightarrow> bool" where
  "HasNonce m nonce \<longleftrightarrow> m nonce \<noteq> None"

text \<open>\<open>AddNonce\<close> returns its error (always \<open>nil\<close>) and the updated store.\<close>

definition AddNonce :: "Time \<Rightarrow> string \<Rightarrow> Duration \<Rightarrow> MemoryNonceStore
    \<Rightarrow> string option \<times> MemoryNonceStore" where
  "AddNonce now nonce ttl m = (None, m(nonce \<mapsto> now + sint ttl))"

definition Cleanup :: "Time \<Rightarrow> MemoryNonceStore \<Rightarrow> MemoryNonceStore" where
  "Cleanup now m =
     (\<lambda>nonce. case m nonce of None \<Rightarrow> None
               | Some expiry \<Rightarrow> if now > expiry then None else Some expiry)"

record Authenticator =
  keys :: "string \<rightharpoonup> string"
  timeWindowSec :: int64
  nonceStore :: MemoryNonceStore

definition NewAuthenticator :: "(string \<rightharpoonup> string) \<Rightarrow> int64 \<Rightarrow> MemoryNonceStore \<Rightarrow> Authenticator" where
  "NewAuthenticator ks tw ns = \<lparr>keys = ks, timeWindowSec = tw, nonceStore = ns\<rparr>"

text \<open>\<open>Time.Unix\<close>: whole seconds since the epoch, as an \<open>int64\<close>.\<close>

definition Unix :: "Time \<Rightarrow> int64" where
  "Unix t = word_of_int (t div 1000000000)"

definition Second :: Duration where
  "Second = 1000000000"

text \<open>The function \<open>abs\<close> of the package, on \<open>int64\<close>: negation wraps around.\<close>

definition abs_int64 :: "int64 \<Rightarrow> int64" where
  "abs_int64 x = (if x <s 0 then - x else x)"

definition verifyTimestamp :: "Authenticator \<Rightarrow> Time \<Rightarrow> int64 \<Rightarrow> string option" where
  "verifyTimestamp a clock ts =
     (let now = Unix clock
      in if timeWindowSec a <s abs_int64 (now - ts) then Some ''timestamp out of window''
         else None)"

definition verifyNonce :: "Authenticator \<Rightarrow> Time \<Rightarrow> string \<Rightarrow> string option \<times> Authenticator" where
  "verifyNonce a clock nonce =
     (if HasNonce (nonceStore a) nonce then (Some ''nonce already used'', a)
      else let ttl = (timeWindowSec a * 2) * Second
           in case AddNonce clock nonce ttl (nonceStore a) of
                (Some err, st) \<Rightarrow> (Some (''failed to store nonce: '' @ err), a\<lparr>nonceStore := st\<rparr>)
              | (None, st) \<Rightarrow> (None, a\<lparr>nonceStore := st\<rparr>))"

text \<open>
  The keyed hash is the library's: \<open>H key payload\<close> stands for
  \<open>hex(HMAC_SHA256(key, payload))\<close> and is a parameter of everything that signs.
\<close>

definition calculateSignature :: "(string \<Rightarrow> string \<Rightarrow> string) \<Rightarrow> string \<Rightarrow> string \<Rightarrow> int64
    \<Rightarrow> string \<Rightarrow> string \<Rightarrow> string" where
  "calculateSignature H appid sn ts nonce key =
     H key (appid @ ''|'' @ sn @ ''|'' @ decimal (sint ts) @ ''|'' @ nonce)"

definition GenerateSignature :: "(string \<Rightarrow> string \<Rightarrow> string) \<Rightarrow> string \<Rightarrow> string \<Rightarrow> int64
    \<Rightarrow> string \<Rightarrow> string \<Rightarrow> string" where
  "GenerateSignature H appid sn ts nonce key = calculateSignature H appid sn ts nonce key"

text \<open>
  \<open>VerifySignature\<close> returns its error (\<open>None\<close> for \<open>nil\<close>) and the authenticator with
  the nonce store as the call leaves it. \<open>hmac.Equal\<close> is equality of the two strings.
\<close>

definition VerifySignature :: "(string \<Rightarrow> string \<Rightarrow> string) \<Rightarrow> Authenticator \<Rightarrow> Time
    \<Rightarrow> string \<Rightarrow> string \<Rightarrow> int64 \<Rightarrow> string \<Rightarrow> string \<Rightarrow> string option \<times> Authenticator" where
  "VerifySignature H a clock appid sn ts nonce signature =
     (case keys a appid of
        None \<Rightarrow> (Some ''invalid appid'', a)
      | Some key \<Rightarrow>
          (case verifyTimestamp a clock ts of
             Some err \<Rightarrow> (Some err, a)
           | None \<Rightarrow>
               (case verifyNonce a clock nonce of
                  (Some err, a') \<Rightarrow> (Some err, a')
                | (None, a') \<Rightarrow>
                    let expectedSig = calculateSignature H appid sn ts nonce key
                    in if signature \<noteq> expectedSig then (Some ''invalid signature'', a')
                       else (None, a'))))"

text \<open>The default configuration of the gateway, and a stand-in for the keyed hash.\<close>

definition demo_auth :: Authenticator where
  "demo_auth = NewAuthenticator [''A1'' \<mapsto> ''K_SECRET_ABC''] 300 NewMemoryNonceStore"

definition demo_H :: "string \<Rightarrow> string \<Rightarrow> string" where
  "demo_H key payload = key @ ''#'' @ payload"

definition demo_clock :: Time where
  "demo_clock = 1700000000 * 1000000000"

text \<open>The same authenticator after the nonce \<open>n1\<close> has been accepted once.\<close>

definition demo_auth_used :: Authenticator where
  "demo_auth_used = demo_auth\<lparr>nonceStore := [''n1'' \<mapsto> demo_clock + 600000000000]\<rparr>"

section \<open>ACK waiter (ack_waiter.go)\<close>

record ACKMessage =
  CmdID :: string
  Status :: string
  Detail :: string

text \<open>
  A \<open>chan *ACKMessage\<close> made with capacity 1: the buffered values (\<open>None\<close> is the
  \<open>nil\<close> pointer) and whether the channel is closed. The two run-time panics of channels
  are results of the operations that raise them.
\<close>

datatype panic = CloseOfClosedChannel | SendOnClosedChannel

record chan =
  buf :: "ACKMessage option list"
  chan_closed :: bool

record ACKWaiter =
  waiters :: "string \<rightharpoonup> nat"
  chans :: "nat \<Rightarrow> chan"
  allocated :: nat

definition NewACKWaiter :: ACKWaiter where
  "NewACKWaiter = \<lparr>waiters = Map.empty, chans = (\<lambda>_. \<lparr>buf = [], chan_closed = False\<rparr>),
     allocated = 0\<rparr>"

text \<open>\<open>make(chan *ACKMessage, 1)\<close>: a channel at an address not used before.\<close>

definition make_chan :: "ACKWaiter \<Rightarrow> nat \<times> ACKWaiter" where
  "make_chan aw =
     (allocated aw,
      aw\<lparr>chans := (chans aw)(allocated aw := \<lparr>buf = [], chan_closed = False\<rparr>),
         allocated := Suc (allocated aw)\<rparr>)"

text \<open>\<open>close(ch)\<close>.\<close>

definition chan_close :: "nat \<Rightarrow> ACKWaiter \<Rightarrow> panic + ACKWaiter" where
  "chan_close ch aw =
     (if chan_closed (chans aw ch) then Inl CloseOfClosedChannel
      else Inr (aw\<lparr>chans := (chans aw)(ch := (chans aw ch)\<lparr>chan_closed := True\<rparr>)\<rparr>))"

text \<open>\<open>select { case ch <- ack: default: }\<close>: a send that gives up when the buffer is full.\<close>

definition chan_try_send :: "nat \<Rightarrow> ACKMessage option \<Rightarrow> ACKWaiter \<Rightarrow> panic + ACKWaiter" where
  "chan_try_send ch ack aw =
     (if chan_closed (chans aw ch) then Inl SendOnClosedChannel
      else if length (buf (chans aw ch)) < 1
           then Inr (aw\<lparr>chans := (chans aw)(ch := (chans aw ch)\<lparr>buf := buf (chans aw ch) @ [ack]\<rparr>)\<rparr>)
           else Inr aw)"

text \<open>
  \<open><-ch\<close> when it can proceed: a buffered value, or the zero value \<open>nil\<close> of a closed and
  drained channel. \<open>None\<close> means that the receive blocks.
\<close>

definition chan_try_recv :: "nat \<Rightarrow> ACKWaiter \<Rightarrow> (ACKMessage option \<times> ACKWaiter) option" where
  "chan_try_recv ch aw =
     (case buf (chans aw ch) of
        ack # rest \<Rightarrow> Some (ack, aw\<lparr>chans := (chans aw)(ch := (chans aw ch)\<lparr>buf := rest\<rparr>)\<rparr>)
      | [] \<Rightarrow> if chan_closed (chans aw ch) then Some (None, aw) else None)"

text \<open>
  \<open>Notify\<close> in its two parts. The lookup runs under the read lock, which is released
  before the send: other goroutines may run between the two, and the channel that the
  lookup found may have been closed by then (by the deferred function of \<open>Wait\<close> or by
  \<open>Cancel\<close>). The send is made when the lookup found a channel.
\<close>

definition Notify_lookup :: "string \<Rightarrow> ACKWaiter \<Rightarrow> nat option" where
  "Notify_lookup cmdID aw = waiters aw cmdID"

definition Notify_send :: "nat option \<Rightarrow> ACKMessage option \<Rightarrow> ACKWaiter \<Rightarrow> panic + ACKWaiter" where
  "Notify_send found ack aw =
     (case found of
        None \<Rightarrow> Inr aw
      | Some ch \<Rightarrow> chan_try_send ch ack aw)"

text \<open>A call of \<open>Notify\<close> during which no other goroutine touches the waiter table.\<close>

definition Notify :: "string \<Rightarrow> ACKMessage option \<Rightarrow> ACKWaiter \<Rightarrow> panic + ACKWaiter" where
  "Notify cmdID ack aw = Notify_send (Notify_lookup cmdID aw) ack aw"

definition Cancel :: "string \<Rightarrow> ACKWaiter \<Rightarrow> panic + ACKWaiter" where
  "Cancel cmdID aw =
     (case waiters aw cmdID of
        None \<Rightarrow> Inr aw
      | Some ch \<Rightarrow>
          (case chan_close ch aw of
             Inl p \<Rightarrow> Inl p
           | Inr aw' \<Rightarrow> Inr (aw'\<lparr>waiters := (waiters aw')(cmdID := None)\<rparr>)))"

text \<open>
  \<open>Wait\<close> in its three parts. The first makes the channel and stores it under the
  command id. The deferred function deletes the entry and closes the channel. In between
  the caller is blocked in the \<open>select\<close>, and what it returns depends on what the other
  goroutines do meanwhile: the events are a call of \<open>Notify\<close> whose two parts follow
  each other directly, the send of a \<open>Notify\<close> whose lookup found the given channel
  earlier, a call of \<open>Cancel\<close>, and the expiry of the context made by
  \<open>context.WithTimeout\<close>. The first event that enables a case of the \<open>select\<close> decides
  it. The list of events takes the place of the parameter \<open>timeout\<close>: the deadline is
  where \<open>EvDeadline\<close> stands in it. What the other goroutines do after \<open>Wait\<close> has
  returned is applied to the state that it leaves.
\<close>

datatype event =
    EvNotify string "ACKMessage option"
  | EvSend nat "ACKMessage option"
  | EvCancel string
  | EvDeadline

datatype wait_result =
    Returned "ACKMessage option" "string option" ACKWaiter
  | Panicked panic
  | Blocked ACKWaiter

definition Wait_register :: "string \<Rightarrow> ACKWaiter \<Rightarrow> nat \<times> ACKWaiter" where
  "Wait_register cmdID aw =
     (case make_chan aw of (ch, aw1) \<Rightarrow> (ch, aw1\<lparr>waiters := (waiters aw1)(cmdID \<mapsto> ch)\<rparr>))"

definition Wait_deferred :: "string \<Rightarrow> nat \<Rightarrow> ACKWaiter \<Rightarrow> panic + ACKWaiter" where
  "Wait_deferred cmdID ch aw = chan_close ch (aw\<lparr>waiters := (waiters aw)(cmdID := None)\<rparr>)"

text \<open>A \<open>return ack, err\<close> of \<open>Wait\<close>: the deferred function runs first, and may panic.\<close>

definition Wait_return :: "string \<Rightarrow> nat \<Rightarrow> ACKMessage option \<Rightarrow> string option \<Rightarrow> ACKWaiter
    \<Rightarrow> wait_result" where
  "Wait_return cmdID ch ack err aw =
     (case Wait_deferred cmdID ch aw of
        Inl p \<Rightarrow> Panicked p
      | Inr aw' \<Rightarrow> Returned ack err aw')"

fun Wait_select :: "string \<Rightarrow> nat \<Rightarrow> event list \<Rightarrow> ACKWaiter \<Rightarrow> wait_result" where
  "Wait_select cmdID ch [] aw =
     (case chan_try_recv ch aw of
        Some (ack, aw') \<Rightarrow> Wait_return cmdID ch ack None aw'
      | None \<Rightarrow> Blocked aw)"
| "Wait_select cmdID ch (e # es) aw =
     (case chan_try_recv ch aw of
        Some (ack, aw') \<Rightarrow> Wait_return cmdID ch ack None aw'
      | None \<Rightarrow>
          (case e of
             EvDeadline \<Rightarrow>
               Wait_return cmdID ch None (Some (''ack timeout for command '' @ cmdID)) aw
           | EvNotify c ack \<Rightarrow>
               (case Notify c ack aw of
                  Inl p \<Rightarrow> Panicked p
                | Inr aw' \<Rightarrow> Wait_select cmdID ch es aw')
           | EvSend c ack \<Rightarrow>
               (case Notify_send (Some c) ack aw of
                  Inl p \<Rightarrow> Panicked p
                | Inr aw' \<Rightarrow> Wait_select cmdID ch es aw')
           | EvCancel c \<Rightarrow>
               (case Cancel c aw of
                  Inl p \<Rightarrow> Panicked p
                | Inr aw' \<Rightarrow> Wait_select cmdID ch es aw')))"

definition Wait :: "string \<Rightarrow> event list \<Rightarrow> ACKWaiter \<Rightarrow> wait_result" where
  "Wait cmdID es aw = (case Wait_register cmdID aw of (ch, aw1) \<Rightarrow> Wait_select cmdID ch es aw1)"

text \<open>
  Events that leave the waiter of \<open>cmdID\<close> alone and do not end its time, with every
  \<open>Notify\<close> among them in one piece.
\<close>

fun quiet :: "string \<Rightarrow> event list \<Rightarrow> bool" where
  "quiet cmdID [] \<longleftrightarrow> True"
| "quiet cmdID (EvNotify c ack # es) \<longleftrightarrow> c \<noteq> cmdID \<and> quiet cmdID es"
| "quiet cmdID (EvSend c ack # es) \<longleftrightarrow> False"
| "quiet cmdID (EvCancel c # es) \<longleftrightarrow> c \<noteq> cmdID \<and> quiet cmdID es"
| "quiet cmdID (EvDeadline # es) \<longleftrightarrow> False"

text \<open>
  Registered channels have been made by \<open>make_chan\<close> and are open, and no channel is
  registered under two command ids (every \<open>Wait\<close> makes its own).
\<close>

definition sound :: "ACKWaiter \<Rightarrow> bool" where
  "sound aw \<longleftrightarrow>
     (\<forall>c ch. waiters aw c = Some ch \<longrightarrow> ch < allocated aw \<and> \<not> chan_closed (chans aw ch))
     \<and> (\<forall>c c' ch. waiters aw c = Some ch \<and> waiters aw c' = Some ch \<longrightarrow> c = c')"

text \<open>What holds while the waiter of \<open>cmdID\<close> is blocked on its channel \<open>ch\<close>.\<close>

definition waiting :: "string \<Rightarrow> nat \<Rightarrow> ACKWaiter \<Rightarrow> bool" where
  "waiting cmdID ch aw \<longleftrightarrow>
     waiters aw cmdID = Some ch \<and> buf (chans aw ch) = [] \<and> \<not> chan_closed (chans aw ch)
     \<and> (\<forall>c ch'. waiters aw c = Some ch' \<longrightarrow> \<not> chan_closed (chans aw ch'))
     \<and> (\<forall>c c' ch'. waiters aw c = Some ch' \<and> waiters aw c' = Some ch' \<longrightarrow> c = c')"

definition demo_ack :: ACKMessage where
  "demo_ack = \<lparr>CmdID = ''cmd-1'', Status = ''ok'', Detail = ''url opened''\<rparr>"

text \<open>
  The table after the only waiter, of \<open>cmd-1\<close>, has timed out: its slot is deleted and
  its channel, the first one made, is closed.
\<close>

definition demo_timed_out :: ACKWaiter where
  "demo_timed_out =
     \<lparr>waiters = Map.empty,
      chans = (\<lambda>_. \<lparr>buf = [], chan_closed = False\<rparr>)(0 := \<lparr>buf = [], chan_closed = True\<rparr>),
      allocated = 1\<rparr>"

section \<open>TCP server (server.go)\<close>

record AuthMessage =
  aAppID :: string
  aSN :: string
  TS :: int64
  Nonce :: string
  Sign :: string
  aMeta :: "(string \<times> string) list"

text \<open>
  \<open>encoding/json\<close> is the library's. The payload codecs that the server uses are
  parameters: decoding returns the text of its error or the value, encoding of the
  server's own reply structures does not fail.
\<close>

record json =
  unmarshalAuth :: "byte list \<Rightarrow> string + AuthMessage"
  unmarshalPing :: "byte list \<Rightarrow> string + int64"
  unmarshalACK :: "byte list \<Rightarrow> string + ACKMessage"
  marshalAuthOK :: "bool \<Rightarrow> string \<Rightarrow> byte list"
  marshalPong :: "int64 \<Rightarrow> byte list"
  marshalError :: "int \<Rightarrow> string \<Rightarrow> byte list"

text \<open>
  The parts of the server that the reader of a connection works on; \<open>stopped\<close> says that
  the channel \<open>shutdown\<close> is closed. The registry holds the four default handlers.
\<close>

record Server =
  sessionManager :: SessionManager
  authenticator :: Authenticator
  ackWaiter :: ACKWaiter
  stopped :: bool

definition NewServer :: "(ref \<Rightarrow> Session) \<Rightarrow> (string \<rightharpoonup> string) \<Rightarrow> int64 \<Rightarrow> Server" where
  "NewServer h ks tw =
     \<lparr>sessionManager = NewSessionManager h,
      authenticator = NewAuthenticator ks tw NewMemoryNonceStore,
      ackWaiter = NewACKWaiter, stopped = False\<rparr>"

definition NewMessage :: "byte \<Rightarrow> byte list \<Rightarrow> Message" where
  "NewMessage msgType data = \<lparr>Version = ProtocolVersion, Type = msgType, Payload = data\<rparr>"

definition session_of :: "Server \<Rightarrow> ref \<Rightarrow> Session" where
  "session_of srv p = heap (sessionManager srv) p"

definition with_session :: "ref \<Rightarrow> (Session \<Rightarrow> Session) \<Rightarrow> Server \<Rightarrow> Server" where
  "with_session p f srv =
     srv\<lparr>sessionManager := (sessionManager srv)
       \<lparr>heap := (heap (sessionManager srv))(p := f (heap (sessionManager srv) p))\<rparr>\<rparr>"

text \<open>
  \<open>Session.SendMessage\<close>: the error of a closed session, or the frame appended to what
  the connection has been given. A write to an open connection is taken to succeed.
\<close>

definition SendMessage :: "ref \<Rightarrow> Message \<Rightarrow> Server \<Rightarrow> string option \<times> Server" where
  "SendMessage p msg srv =
     (if closed (session_of srv p) then (Some ''session closed'', srv)
      else (None, with_session p (\<lambda>s. s\<lparr>outbox := outbox s @ WriteMessage msg\<rparr>) srv))"

definition sendAuthResult :: "json \<Rightarrow> ref \<Rightarrow> bool \<Rightarrow> string \<Rightarrow> Server \<Rightarrow> Server" where
  "sendAuthResult J p success message srv =
     snd (SendMessage p (NewMessage TypeAuthOK (marshalAuthOK J success message)) srv)"

definition sendError :: "json \<Rightarrow> ref \<Rightarrow> int \<Rightarrow> string \<Rightarrow> Server \<Rightarrow> Server" where
  "sendError J p code message srv =
     snd (SendMessage p (NewMessage TypeErr (marshalError J code message)) srv)"

definition handleAuth :: "json \<Rightarrow> (string \<Rightarrow> string \<Rightarrow> string) \<Rightarrow> Time \<Rightarrow> ref \<Rightarrow> Message
    \<Rightarrow> Server \<Rightarrow> string option \<times> Server" where
  "handleAuth J H clock p msg srv =
     (case unmarshalAuth J (Payload msg) of
        Inl err \<Rightarrow> (Some (''invalid auth payload: '' @ err), srv)
      | Inr auth \<Rightarrow>
          (case VerifySignature H (authenticator srv) clock
                  (aAppID auth) (aSN auth) (TS auth) (Nonce auth) (Sign auth) of
             (Some err, a') \<Rightarrow>
               (Some (''auth failed: '' @ err),
                sendAuthResult J p False err (srv\<lparr>authenticator := a'\<rparr>))
           | (None, a') \<Rightarrow>
               let srv1 = srv\<lparr>authenticator := a'\<rparr>;
                   srv2 = with_session p
                     (\<lambda>s. s\<lparr>SN := aSN auth, AppID := aAppID auth, Meta := aMeta auth\<rparr>) srv1;
                   srv3 = srv2\<lparr>sessionManager := Add p (sessionManager srv2)\<rparr>
               in (None, sendAuthResult J p True ''authenticated'' srv3)))"

definition handlePing :: "json \<Rightarrow> Time \<Rightarrow> ref \<Rightarrow> Message \<Rightarrow> Server \<Rightarrow> string option \<times> Server" where
  "handlePing J clock p msg srv =
     (case unmarshalPing J (Payload msg) of
        Inl err \<Rightarrow> (Some err, srv)
      | Inr ping \<Rightarrow>
          let srv1 = srv\<lparr>sessionManager := UpdatePing p clock (sessionManager srv)\<rparr>
          in SendMessage p (NewMessage TypePong (marshalPong J (Unix clock))) srv1)"

definition handlePong :: "Time \<Rightarrow> ref \<Rightarrow> Message \<Rightarrow> Server \<Rightarrow> string option \<times> Server" where
  "handlePong clock p msg srv =
     (None, srv\<lparr>sessionManager := UpdatePing p clock (sessionManager srv)\<rparr>)"

definition handleACK :: "json \<Rightarrow> ref \<Rightarrow> Message \<Rightarrow> Server \<Rightarrow> panic + (string option \<times> Server)" where
  "handleACK J p msg srv =
     (case unmarshalACK J (Payload msg) of
        Inl err \<Rightarrow> Inr (Some err, srv)
      | Inr ack \<Rightarrow>
          (case Notify (CmdID ack) (Some ack) (ackWaiter srv) of
             Inl pn \<Rightarrow> Inl pn
           | Inr aw' \<Rightarrow> Inr (None, srv\<lparr>ackWaiter := aw'\<rparr>)))"

definition handleMessage :: "json \<Rightarrow> (string \<Rightarrow> string \<Rightarrow> string) \<Rightarrow> Time \<Rightarrow> ref \<Rightarrow> Message
    \<Rightarrow> Server \<Rightarrow> panic + (string option \<times> Server)" where
  "handleMessage J H clock p msg srv =
     (if Type msg = TypeAuth then Inr (handleAuth J H clock p msg srv)
      else if Type msg = TypePing then Inr (handlePing J clock p msg srv)
      else if Type msg = TypePong then Inr (handlePong clock p msg srv)
      else if Type msg = TypeACK then handleACK J p msg srv
      else Inr (Some (''unknown message type: '' @ decimal (uint (Type msg))), srv))"

text \<open>
  The loop of \<open>handleConnection\<close> on the bytes that the connection still delivers. It
  returns when the server is stopped, when the session is closed or when a read fails
  (the stream ends there at the latest); a handler error is answered with an error frame
  and the loop goes on; a panic in a handler is not recovered.
\<close>

function readLoop :: "json \<Rightarrow> (string \<Rightarrow> string \<Rightarrow> string) \<Rightarrow> Time \<Rightarrow> ref \<Rightarrow> byte list
    \<Rightarrow> Server \<Rightarrow> panic + Server" where
  "readLoop J H clock p conn srv =
     (if stopped srv \<or> closed (session_of srv p) then Inr srv
      else case ReadMessage conn of
             Inl err \<Rightarrow> Inr srv
           | Inr (msg, rest) \<Rightarrow>
               (case handleMessage J H clock p msg srv of
                  Inl pn \<Rightarrow> Inl pn
                | Inr (None, srv') \<Rightarrow> readLoop J H clock p rest srv'
                | Inr (Some err, srv') \<Rightarrow> readLoop J H clock p rest (sendError J p 500 err srv')))"
  by pat_completeness auto
termination
  by (relation "measure (\<lambda>(J, H, clock, p, conn, srv). length conn)")
     (auto simp add: ReadMessage_def Let_def split: if_splits)

declare readLoop.simps [simp del]

text \<open>The reader from a given state on: the loop, then the deferred \<open>session.Close()\<close>.\<close>

definition reader :: "json \<Rightarrow> (string \<Rightarrow> string \<Rightarrow> string) \<Rightarrow> Time \<Rightarrow> ref \<Rightarrow> byte list
    \<Rightarrow> Server \<Rightarrow> panic + Server" where
  "reader J H clock p conn srv =
     (case readLoop J H clock p conn srv of
        Inl pn \<Rightarrow> Inl pn
      | Inr srv' \<Rightarrow> Inr (srv'\<lparr>sessionManager := Session_Close p (sessionManager srv')\<rparr>))"

text \<open>
  \<open>handleConnection\<close>: the session object is made at a fresh address \<open>p\<close> with a fresh
  \<open>uuid\<close>, and the reader runs on it.
\<close>

definition handleConnection :: "json \<Rightarrow> (string \<Rightarrow> string \<Rightarrow> string) \<Rightarrow> Time \<Rightarrow> ref \<Rightarrow> string
    \<Rightarrow> string \<Rightarrow> byte list \<Rightarrow> Server \<Rightarrow> panic + Server" where
  "handleConnection J H clock p uuid addr conn srv =
     reader J H clock p conn (with_session p (\<lambda>_. NewSession uuid addr clock) srv)"

text \<open>What a finished run of the reader has written to the connection of session \<open>p\<close>.\<close>

definition sent_on :: "ref \<Rightarrow> panic + Server \<Rightarrow> byte list option" where
  "sent_on p r = (case r of Inl pn \<Rightarrow> None | Inr srv \<Rightarrow> Some (outbox (session_of srv p)))"

text \<open>
  A gateway with the default key and window, and stand-ins for the payload codecs: the
  Auth payload \<open>[1]\<close> decodes to a correctly signed handshake of device \<open>SN1\<close>, any other
  non-empty one to a handshake with the unknown appid \<open>ZZ\<close>.
\<close>

definition demo_server :: Server where
  "demo_server = NewServer demo_heap [''A1'' \<mapsto> ''K_SECRET_ABC''] 300"

definition demo_handshake :: "string \<Rightarrow> AuthMessage" where
  "demo_handshake appid =
     \<lparr>aAppID = appid, aSN = ''SN1'', TS = 1700000000, Nonce = ''n1'',
      Sign = calculateSignature demo_H ''A1'' ''SN1'' 1700000000 ''n1'' ''K_SECRET_ABC'',
      aMeta = []\<rparr>"

definition demo_J :: json where
  "demo_J =
     \<lparr>unmarshalAuth = (\<lambda>bs. if bs = [] then Inl ''unexpected end of JSON input''
                             else if bs = [1] then Inr (demo_handshake ''A1'')
                             else Inr (demo_handshake ''ZZ'')),
      unmarshalPing = (\<lambda>bs. Inr 0),
      unmarshalACK = (\<lambda>bs. Inr demo_ack),
      marshalAuthOK = (\<lambda>success message. (if success then 1 else 0) # map (\<lambda>c. of_nat (of_char c)) message),
      marshalPong = (\<lambda>t. [80]),
      marshalError = (\<lambda>code message. map (\<lambda>c. of_nat (of_char c)) message)\<rparr>"

text \<open>The two indices of the manager as a finished run of the reader leaves them.\<close>

definition id_index_after :: "panic + Server \<Rightarrow> string \<Rightarrow> ref option" where
  "id_index_after r k = (case r of Inl pn \<Rightarrow> None | Inr srv \<Rightarrow> sessions (sessionManager srv) k)"

definition sn_index_after :: "panic + Server \<Rightarrow> string \<Rightarrow> string option" where
  "sn_index_after r sn = (case r of Inl pn \<Rightarrow> None | Inr srv \<Rightarrow> snToID (sessionManager srv) sn)"


section \<open>Properties of the frame codec\<close>

lemma be32_join_split:
  "(ucast (ucast v :: byte) OR push_bit 8 (ucast (ucast (drop_bit 8 v) :: byte))
      OR push_bit 16 (ucast (ucast (drop_bit 16 v) :: byte))
      OR push_bit 24 (ucast (ucast (drop_bit 24 v) :: byte)) :: uint32) = v"
proof (rule bit_word_eqI)
  fix n :: nat
  assume n: "n < LENGTH(32)"
  consider "n < 8" | "8 \<le> n" "n < 16" | "16 \<le> n" "n < 24" | "24 \<le> n"
    by linarith
  then show "bit (ucast (ucast v :: byte) OR push_bit 8 (ucast (ucast (drop_bit 8 v) :: byte))
                 OR push_bit 16 (ucast (ucast (drop_bit 16 v) :: byte))
                 OR push_bit 24 (ucast (ucast (drop_bit 24 v) :: byte)) :: uint32) n = bit v n"
    using n by cases (auto simp add: bit_simps)
qed

lemma Uint32_PutUint32: "Uint32 (PutUint32 v) = v"
  by (simp add: Uint32_def PutUint32_def be32_join_split)

lemma length_PutUint32: "length (PutUint32 v) = 4"
  by (simp add: PutUint32_def)

lemma unat_frame_length:
  assumes "n \<le> 2 ^ 20"
  shows "unat (word_of_nat n :: uint32) = n"
proof -
  have "n < 2 ^ LENGTH(32)"
    using assms by simp
  then show ?thesis
    by (simp add: unat_of_nat)
qed

lemma frame_length_le_max:
  assumes "n \<le> 2 ^ 20"
  shows "\<not> (word_of_nat n :: uint32) > MaxMessageSize"
proof -
  have "unat (word_of_nat n :: uint32) \<le> unat MaxMessageSize"
    using assms by (simp add: unat_frame_length MaxMessageSize_def)
  then show ?thesis
    by (simp add: word_less_nat_alt)
qed

lemma frame_length_ge_2:
  assumes "2 \<le> n" "n \<le> 2 ^ 20"
  shows "\<not> (word_of_nat n :: uint32) < 2"
  using assms by (simp add: word_less_nat_alt unat_frame_length)

lemma ReadMessage_WriteMessage:
  assumes v: "Version msg = ProtocolVersion"
    and sz: "length (Payload msg) + 2 \<le> 2 ^ 20"
  shows "ReadMessage (WriteMessage msg @ rest) = Inr (msg, rest)"
proof -
  let ?body = "Version msg # Type msg # Payload msg"
  let ?n = "length ?body"
  have n: "?n \<le> 2 ^ 20" "2 \<le> ?n"
    using sz by simp_all
  have w: "WriteMessage msg @ rest = PutUint32 (word_of_nat ?n) @ ?body @ rest"
    by (simp add: WriteMessage_def Let_def)
  have hd4: "take 4 (WriteMessage msg @ rest) = PutUint32 (word_of_nat ?n)"
    and tl4: "drop 4 (WriteMessage msg @ rest) = ?body @ rest"
    unfolding w by (simp_all add: length_PutUint32)
  have len: "Uint32 (take 4 (WriteMessage msg @ rest)) = word_of_nat ?n"
    by (simp only: hd4 Uint32_PutUint32)
  have un: "unat (word_of_nat ?n :: uint32) = ?n"
    using n(1) by (rule unat_frame_length)
  have long: "\<not> length (WriteMessage msg @ rest) < 4"
    unfolding w by (simp add: length_PutUint32)
  have "ReadMessage (WriteMessage msg @ rest)
          = Inr (\<lparr>Version = Version msg, Type = Type msg, Payload = Payload msg\<rparr>, rest)"
    unfolding ReadMessage_def Let_def len tl4 un
    using long frame_length_le_max [OF n(1)] frame_length_ge_2 [OF n(2) n(1)] v
    by simp
  then show ?thesis by simp
qed

lemma ReadMessage_too_large:
  assumes "Uint32 (take 4 conn) > MaxMessageSize"
  shows "isl (ReadMessage conn)"
  using assms by (simp add: ReadMessage_def Let_def)

lemma ReadMessage_too_short:
  assumes "Uint32 (take 4 conn) < 2"
  shows "isl (ReadMessage conn)"
  using assms by (simp add: ReadMessage_def Let_def)

lemma ReadMessage_bad_version:
  assumes "length conn \<ge> 4 + unat (Uint32 (take 4 conn))"
    and "\<not> Uint32 (take 4 conn) > MaxMessageSize"
    and "\<not> Uint32 (take 4 conn) < 2"
    and "conn ! 4 \<noteq> ProtocolVersion"
  shows "ReadMessage conn = Inl (ErrVersion (conn ! 4))"
proof -
  have "0 < unat (Uint32 (take 4 conn))"
    using assms(3) by (simp add: word_less_nat_alt)
  then show ?thesis
    using assms by (simp add: ReadMessage_def Let_def)
qed

lemma ReadMessage_version:
  assumes "ReadMessage conn = Inr (msg, rest)"
  shows "Version msg = ProtocolVersion"
  using assms by (auto simp add: ReadMessage_def Let_def split: if_splits)

text \<open>
  Claim C7. Frame round trip and limits: a message with version 1 whose body (payload
  plus the two header bytes) is at most 1 MiB is read back unchanged from what
  \<open>WriteMessage\<close> wrote, whatever follows it on the stream; \<open>ReadMessage\<close> returns an
  error for a declared length above 1 MiB, for a declared length below 2, and for a
  version byte other than 1.
\<close>

theorem frame_codec_roundtrip_and_limits:
  "(Version msg = 1 \<and> length (Payload msg) + 2 \<le> 1024 * 1024
      \<longrightarrow> ReadMessage (WriteMessage msg @ rest) = Inr (msg, rest))
   \<and> (Uint32 (take 4 c1) > MaxMessageSize \<longrightarrow> isl (ReadMessage c1))
   \<and> (Uint32 (take 4 c2) < 2 \<longrightarrow> isl (ReadMessage c2))
   \<and> (\<forall>m r. ReadMessage c3 = Inr (m, r) \<longrightarrow> Version m = 1)
   \<and> (length c4 \<ge> 4 + unat (Uint32 (take 4 c4)) \<and> Uint32 (take 4 c4) \<le> MaxMessageSize
        \<and> Uint32 (take 4 c4) \<ge> 2 \<and> c4 ! 4 \<noteq> 1
      \<longrightarrow> ReadMessage c4 = Inl (ErrVersion (c4 ! 4)))"
proof -
  have a: "Version msg = 1 \<and> length (Payload msg) + 2 \<le> 1024 * 1024
      \<longrightarrow> ReadMessage (WriteMessage msg @ rest) = Inr (msg, rest)"
    using ReadMessage_WriteMessage [of msg rest] by (simp add: ProtocolVersion_def)
  have b: "Uint32 (take 4 c1) > MaxMessageSize \<longrightarrow> isl (ReadMessage c1)"
    using ReadMessage_too_large by blast
  have c: "Uint32 (take 4 c2) < 2 \<longrightarrow> isl (ReadMessage c2)"
    using ReadMessage_too_short by blast
  have d: "\<forall>m r. ReadMessage c3 = Inr (m, r) \<longrightarrow> Version m = 1"
    using ReadMessage_version by (simp add: ProtocolVersion_def)
  have e: "length c4 \<ge> 4 + unat (Uint32 (take 4 c4)) \<and> Uint32 (take 4 c4) \<le> MaxMessageSize
        \<and> Uint32 (take 4 c4) \<ge> 2 \<and> c4 ! 4 \<noteq> 1
      \<longrightarrow> ReadMessage c4 = Inl (ErrVersion (c4 ! 4))"
    using ReadMessage_bad_version [of c4] by (simp add: ProtocolVersion_def not_less)
  from a b c d e show ?thesis by blast
qed

theorem frame_codec_roundtrip_and_limits_witness:
  "ReadMessage (WriteMessage \<lparr>Version = 1, Type = 7, Payload = [104, 105]\<rparr> @ [9])
      = Inr (\<lparr>Version = 1, Type = 7, Payload = [104, 105]\<rparr>, [9])
   \<and> Uint32 (take 4 [0, 16, 0, 1]) > MaxMessageSize \<and> isl (ReadMessage [0, 16, 0, 1])
   \<and> Uint32 (take 4 [0, 0, 0, 1, 1]) < 2 \<and> isl (ReadMessage [0, 0, 0, 1, 1])
   \<and> 4 + unat (Uint32 (take 4 [0, 0, 0, 2, 2, 3])) \<le> length [0, 0, 0, 2, 2, 3 :: byte]
   \<and> ReadMessage [0, 0, 0, 2, 2, 3] = Inl (ErrVersion 2)"
  using frame_codec_roundtrip_and_limits
    [of "\<lparr>Version = 1, Type = 7, Payload = [104, 105]\<rparr>" "[9]" "[0, 16, 0, 1]"
        "[0, 0, 0, 1, 1]"
        "WriteMessage \<lparr>Version = 1, Type = 7, Payload = [104, 105]\<rparr> @ [9]"
        "[0, 0, 0, 2, 2, 3]"]
  by (simp add: Uint32_def MaxMessageSize_def)
section \<open>Properties of the session manager\<close>













lemma Add_sessions_self: "sessions (Add p m) (ID (heap m p)) = Some p"
  by (simp add: Add_def Let_def)

lemma Add_snToID_self:
  "SN (heap m p) \<noteq> [] \<Longrightarrow> snToID (Add p m) (SN (heap m p)) = Some (ID (heap m p))"
  by (simp add: Add_def Let_def)





lemma orderly_reachable: "orderly m \<Longrightarrow> reachable m"
  by (induction rule: orderly.induct)
     (auto intro: reachable.intros)










section \<open>Properties of the authenticator\<close>

lemma sint_ttl:
  assumes "- 4611686018 \<le> sint tw" "sint tw \<le> 4611686018"
  shows "sint ((tw * 2) * Second :: int64) = 2 * sint tw * 1000000000"
proof -
  have "sint ((tw * 2) * Second :: int64) = signed_take_bit 63 (sint tw * 2 * 1000000000)"
    by (simp add: Second_def sint_word_ariths signed_take_bit_mult)
  also have "\<dots> = sint tw * 2 * 1000000000"
    using assms by (intro signed_take_bit_int_eq_self) simp_all
  finally show ?thesis by simp
qed

lemma sint_int64_range: "- (2 ^ 63) \<le> sint (x :: int64)" "sint (x :: int64) < 2 ^ 63"
  using sint_ge [of x] sint_lt [of x] by simp_all

lemma sint_sub_exact:
  assumes "- (2 ^ 63) \<le> sint x - sint y" "sint x - sint y < 2 ^ 63"
  shows "sint (x - y :: int64) = sint x - sint y"
proof -
  have "sint (x - y) = signed_take_bit 63 (sint x - sint y)"
    by (simp add: sint_word_ariths)
  also have "\<dots> = sint x - sint y"
    using assms by (intro signed_take_bit_int_eq_self) simp_all
  finally show ?thesis .
qed

lemma sint_abs_int64:
  assumes "- (2 ^ 63) < sint x"
  shows "sint (abs_int64 x) = \<bar>sint x\<bar>"
proof (cases "x <s 0")
  case True
  then have neg: "sint x < 0"
    by (simp add: word_sless_alt)
  have "sint (- x) = signed_take_bit 63 (- sint x)"
    by (simp add: sint_word_ariths)
  also have "\<dots> = - sint x"
    using assms neg by (intro signed_take_bit_int_eq_self) simp_all
  finally show ?thesis
    using True neg by (simp add: abs_int64_def)
next
  case False
  then have "0 \<le> sint x"
    by (simp add: word_sless_alt)
  then show ?thesis
    using False by (simp add: abs_int64_def)
qed

lemma verifyTimestamp_exact:
  assumes "- (2 ^ 63) < sint (Unix clock) - sint ts" "sint (Unix clock) - sint ts < 2 ^ 63"
  shows "verifyTimestamp a clock ts = None
           \<longleftrightarrow> \<bar>sint (Unix clock) - sint ts\<bar> \<le> sint (timeWindowSec a)"
proof -
  have d: "sint (Unix clock - ts) = sint (Unix clock) - sint ts"
    using assms by (intro sint_sub_exact) simp_all
  then have "sint (abs_int64 (Unix clock - ts)) = \<bar>sint (Unix clock) - sint ts\<bar>"
    using assms(1) sint_abs_int64 [of "Unix clock - ts"] by simp
  then show ?thesis
    by (auto simp add: verifyTimestamp_def Let_def word_sless_alt)
qed

lemma verifyTimestamp_message:
  "verifyTimestamp a clock ts \<noteq> None
     \<Longrightarrow> verifyTimestamp a clock ts = Some ''timestamp out of window''"
  by (simp add: verifyTimestamp_def Let_def split: if_splits)

lemma verifyNonce_fresh:
  assumes "\<not> HasNonce (nonceStore a) nonce"
  shows "verifyNonce a clock nonce
           = (None, a\<lparr>nonceStore := (nonceStore a)
                (nonce \<mapsto> clock + sint ((timeWindowSec a * 2) * Second))\<rparr>)"
  using assms by (simp add: verifyNonce_def AddNonce_def Let_def)

lemma verifyNonce_used:
  assumes "HasNonce (nonceStore a) nonce"
  shows "verifyNonce a clock nonce = (Some ''nonce already used'', a)"
  using assms by (simp add: verifyNonce_def)

lemma HasNonce_after_verifyNonce: "HasNonce (nonceStore (snd (verifyNonce a clock nonce))) nonce"
  by (cases "HasNonce (nonceStore a) nonce")
     (simp_all add: verifyNonce_fresh verifyNonce_used, simp add: HasNonce_def)

lemma VerifySignature_timestamp_first:
  assumes "keys a appid = Some key" and "verifyTimestamp a clock ts \<noteq> None"
  shows "VerifySignature H a clock appid sn ts nonce sg = (Some ''timestamp out of window'', a)"
  using assms(1) verifyTimestamp_message [OF assms(2)]
  by (simp add: VerifySignature_def)

lemma VerifySignature_nonce_second:
  assumes "keys a appid = Some key" and "verifyTimestamp a clock ts = None"
    and "HasNonce (nonceStore a) nonce"
  shows "VerifySignature H a clock appid sn ts nonce sg = (Some ''nonce already used'', a)"
  using assms by (simp add: VerifySignature_def verifyNonce_used)

lemma VerifySignature_signature_last:
  assumes "keys a appid = Some key" and "verifyTimestamp a clock ts = None"
    and "\<not> HasNonce (nonceStore a) nonce"
  shows "VerifySignature H a clock appid sn ts nonce sg
           = (if sg \<noteq> calculateSignature H appid sn ts nonce key then Some ''invalid signature''
              else None, snd (verifyNonce a clock nonce))"
  using assms by (simp add: VerifySignature_def verifyNonce_fresh Let_def)

text \<open>
  Away from the wrap-around of the 64-bit subtraction the whole verification follows the
  window: with a known appid, a fresh nonce and the right signature it succeeds exactly
  when the timestamp is at most \<open>timeWindowSec\<close> seconds from the clock, and fails with
  the window's message otherwise.
\<close>

lemma VerifySignature_window:
  assumes "keys a appid = Some key" and "\<not> HasNonce (nonceStore a) nonce"
    and "- (2 ^ 63) < sint (Unix clock) - sint ts" and "sint (Unix clock) - sint ts < 2 ^ 63"
  shows "fst (VerifySignature H a clock appid sn ts nonce
                (calculateSignature H appid sn ts nonce key))
           = (if \<bar>sint (Unix clock) - sint ts\<bar> \<le> sint (timeWindowSec a) then None
              else Some ''timestamp out of window'')"
proof (cases "verifyTimestamp a clock ts = None")
  case True
  then show ?thesis
    using assms verifyTimestamp_exact [of clock ts a]
    by (simp add: VerifySignature_signature_last)
next
  case False
  have "\<not> \<bar>sint (Unix clock) - sint ts\<bar> \<le> sint (timeWindowSec a)"
  proof
    assume "\<bar>sint (Unix clock) - sint ts\<bar> \<le> sint (timeWindowSec a)"
    then have "verifyTimestamp a clock ts = None"
      by (rule verifyTimestamp_exact [OF assms(3,4), THEN iffD2])
    with False show False by contradiction
  qed
  then show ?thesis
    by (simp add: VerifySignature_timestamp_first [OF assms(1) False])
qed

text \<open>
  Away from the wrap-around the checks come in the order of the procedure, with the
  window itself as the first condition: a timestamp outside the window is rejected as
  such and the nonce store is left as it was, whether or not it holds the nonce; inside
  the window a used nonce is rejected; a fresh one is stored before the signature is
  compared, so it is consumed also when the signature is wrong; and the valid tuple,
  accepted once, is rejected as a replay when it is presented again.
\<close>

lemma VerifySignature_order_without_wrap:
  assumes "keys a appid = Some key"
    and "- (2 ^ 63) < sint (Unix clock) - sint ts" and "sint (Unix clock) - sint ts < 2 ^ 63"
  shows "(\<bar>sint (Unix clock) - sint ts\<bar> > sint (timeWindowSec a) \<longrightarrow>
            VerifySignature H a clock appid sn ts nonce sg = (Some ''timestamp out of window'', a))
       \<and> (\<bar>sint (Unix clock) - sint ts\<bar> \<le> sint (timeWindowSec a)
            \<and> HasNonce (nonceStore a) nonce \<longrightarrow>
            VerifySignature H a clock appid sn ts nonce sg = (Some ''nonce already used'', a))
       \<and> (\<bar>sint (Unix clock) - sint ts\<bar> \<le> sint (timeWindowSec a)
            \<and> \<not> HasNonce (nonceStore a) nonce \<longrightarrow>
            VerifySignature H a clock appid sn ts nonce sg
              = (if sg \<noteq> calculateSignature H appid sn ts nonce key
                 then Some ''invalid signature'' else None, snd (verifyNonce a clock nonce))
            \<and> HasNonce (nonceStore (snd (verifyNonce a clock nonce))) nonce
            \<and> VerifySignature H (snd (verifyNonce a clock nonce)) clock appid sn ts nonce sg
              = (Some ''nonce already used'', snd (verifyNonce a clock nonce)))"
proof (cases "verifyTimestamp a clock ts = None")
  case True
  then have inside: "\<bar>sint (Unix clock) - sint ts\<bar> \<le> sint (timeWindowSec a)"
    using verifyTimestamp_exact [OF assms(2,3), of a] by simp
  let ?a' = "snd (verifyNonce a clock nonce)"
  have used: "HasNonce (nonceStore ?a') nonce"
    by (rule HasNonce_after_verifyNonce)
  have again: "\<not> HasNonce (nonceStore a) nonce \<Longrightarrow>
      VerifySignature H ?a' clock appid sn ts nonce sg = (Some ''nonce already used'', ?a')"
  proof -
    assume fresh: "\<not> HasNonce (nonceStore a) nonce"
    have k: "keys ?a' appid = Some key"
      using assms(1) fresh by (simp add: verifyNonce_fresh)
    have t: "verifyTimestamp ?a' clock ts = None"
      using True fresh by (simp add: verifyNonce_fresh verifyTimestamp_def)
    show ?thesis
      using k t used by (rule VerifySignature_nonce_second)
  qed
  show ?thesis
    using inside used again assms(1) True
    by (simp add: VerifySignature_nonce_second VerifySignature_signature_last)
next
  case False
  have outside: "\<not> \<bar>sint (Unix clock) - sint ts\<bar> \<le> sint (timeWindowSec a)"
  proof
    assume "\<bar>sint (Unix clock) - sint ts\<bar> \<le> sint (timeWindowSec a)"
    then have "verifyTimestamp a clock ts = None"
      by (rule verifyTimestamp_exact [OF assms(2,3), THEN iffD2])
    with False show False by contradiction
  qed
  then show ?thesis
    by (simp add: VerifySignature_timestamp_first [OF assms(1) False])
qed

text \<open>
  Claim C2. Order of the checks: the timestamp of the tuple below lies \<open>2 ^ 63\<close> seconds
  before the clock, outside the window of 300 seconds, and its appid is known. The
  subtraction wraps around and the timestamp check does not reject (see claim C8), so
  the nonce store is consulted for a tuple that fails the window: with the nonce in the
  store the answer is \<open>nonce already used\<close>, not \<open>timestamp out of window\<close>; with a fresh
  nonce the nonce is stored, whatever the signature.
\<close>

theorem timestamp_check_skipped_at_int64_min:
  "\<bar>sint (Unix demo_clock) - sint (- 9223372035154775808 :: int64)\<bar>
       > sint (timeWindowSec demo_auth_used)
   \<and> HasNonce (nonceStore demo_auth_used) ''n1''
   \<and> VerifySignature H demo_auth_used demo_clock ''A1'' ''SN1'' (- 9223372035154775808) ''n1'' sg
       = (Some ''nonce already used'', demo_auth_used)
   \<and> \<not> HasNonce (nonceStore demo_auth) ''n1''
   \<and> HasNonce (nonceStore (snd (VerifySignature H demo_auth demo_clock ''A1'' ''SN1''
           (- 9223372035154775808) ''n1'' sg))) ''n1''"
proof -
  have k: "keys demo_auth ''A1'' = Some ''K_SECRET_ABC''"
    "keys demo_auth_used ''A1'' = Some ''K_SECRET_ABC''"
    by (simp_all add: demo_auth_used_def demo_auth_def NewAuthenticator_def)
  have t: "verifyTimestamp demo_auth demo_clock (- 9223372035154775808) = None"
    "verifyTimestamp demo_auth_used demo_clock (- 9223372035154775808) = None"
    by (simp_all add: verifyTimestamp_def demo_auth_used_def demo_auth_def NewAuthenticator_def
        demo_clock_def Unix_def abs_int64_def word_sless_alt)
  have f: "\<not> HasNonce (nonceStore demo_auth) ''n1''"
    by (simp add: HasNonce_def demo_auth_def NewAuthenticator_def NewMemoryNonceStore_def)
  have u: "HasNonce (nonceStore demo_auth_used) ''n1''"
    by (simp add: HasNonce_def demo_auth_used_def)
  have w: "\<bar>sint (Unix demo_clock) - sint (- 9223372035154775808 :: int64)\<bar>
       > sint (timeWindowSec demo_auth_used)"
    by (simp add: demo_auth_used_def demo_auth_def NewAuthenticator_def demo_clock_def Unix_def)
  have "VerifySignature H demo_auth_used demo_clock ''A1'' ''SN1'' (- 9223372035154775808) ''n1'' sg
       = (Some ''nonce already used'', demo_auth_used)"
    using k(2) t(2) u by (rule VerifySignature_nonce_second)
  moreover have "HasNonce (nonceStore (snd (VerifySignature H demo_auth demo_clock ''A1'' ''SN1''
           (- 9223372035154775808) ''n1'' sg))) ''n1''"
    using HasNonce_after_verifyNonce [of demo_auth demo_clock "''n1''"]
    by (simp add: VerifySignature_signature_last [OF k(1) t(1) f])
  ultimately show ?thesis
    using w u f by simp
qed

text \<open>
  Claim C8. Clock window: the tuple below has a known appid, a fresh nonce and the right
  signature, and its timestamp lies \<open>2 ^ 63\<close> seconds before the clock, far outside the
  window of 300 seconds. The subtraction \<open>now - ts\<close> wraps around to the least
  \<open>int64\<close>, which \<open>abs\<close> returns unchanged, so the comparison with the window does not
  reject and the verification succeeds.
\<close>

theorem clock_window_wraps_at_int64_min:
  "fst (VerifySignature H demo_auth demo_clock ''A1'' ''SN1'' (- 9223372035154775808) ''n1''
         (calculateSignature H ''A1'' ''SN1'' (- 9223372035154775808) ''n1'' ''K_SECRET_ABC''))
     = None
   \<and> \<bar>sint (Unix demo_clock) - sint (- 9223372035154775808 :: int64)\<bar>
       > sint (timeWindowSec demo_auth)"
proof -
  have k: "keys demo_auth ''A1'' = Some ''K_SECRET_ABC''"
    by (simp add: demo_auth_def NewAuthenticator_def)
  have t: "verifyTimestamp demo_auth demo_clock (- 9223372035154775808) = None"
    by (simp add: verifyTimestamp_def demo_auth_def NewAuthenticator_def demo_clock_def
        Unix_def abs_int64_def word_sless_alt)
  have f: "\<not> HasNonce (nonceStore demo_auth) ''n1''"
    by (simp add: HasNonce_def demo_auth_def NewAuthenticator_def NewMemoryNonceStore_def)
  have "\<bar>sint (Unix demo_clock) - sint (- 9223372035154775808 :: int64)\<bar>
       > sint (timeWindowSec demo_auth)"
    by (simp add: demo_auth_def NewAuthenticator_def demo_clock_def Unix_def)
  then show ?thesis
    using VerifySignature_signature_last [OF k t f] by simp
qed
section \<open>Properties of the ACK waiter\<close>

text \<open>The table stays sound under the operations, as long as none of them panics.\<close>

lemma sound_NewACKWaiter: "sound NewACKWaiter"
  by (simp add: sound_def NewACKWaiter_def)

lemma sound_Wait_register:
  assumes "sound aw"
  shows "sound (snd (Wait_register cmdID aw))"
proof -
  have old: "\<And>c ch. waiters aw c = Some ch \<Longrightarrow> ch < allocated aw \<and> \<not> chan_closed (chans aw ch)"
    and inj: "\<And>c c' ch. waiters aw c = Some ch \<Longrightarrow> waiters aw c' = Some ch \<Longrightarrow> c = c'"
    using assms unfolding sound_def by blast+
  show ?thesis
    unfolding sound_def Wait_register_def make_chan_def
    using old inj by (auto split: if_splits dest: less_SucI)
qed

lemma sound_Notify:
  assumes "sound aw" and "Notify c ack aw = Inr aw'"
  shows "sound aw'"
  using assms
  by (auto simp add: sound_def Notify_def Notify_lookup_def Notify_send_def chan_try_send_def split: option.splits if_splits)

lemma sound_Cancel:
  assumes "sound aw" and "Cancel c aw = Inr aw'"
  shows "sound aw'"
proof (cases "waiters aw c")
  case None
  then show ?thesis
    using assms by (simp add: Cancel_def)
next
  case (Some ch)
  have inj: "\<And>c'. waiters aw c' = Some ch \<Longrightarrow> c' = c"
    using assms(1) Some unfolding sound_def by blast
  have aw': "aw' = aw\<lparr>chans := (chans aw)(ch := (chans aw ch)\<lparr>chan_closed := True\<rparr>),
                 waiters := (waiters aw)(c := None)\<rparr>"
    using assms(2) Some by (auto simp add: Cancel_def chan_close_def split: if_splits)
  show ?thesis
    using assms(1) inj unfolding sound_def aw' by (auto split: if_splits)
qed

lemma waiting_blocks: "waiting cmdID ch aw \<Longrightarrow> chan_try_recv ch aw = None"
  by (simp add: waiting_def chan_try_recv_def)

lemma Wait_register_waiting:
  assumes "sound aw" and "Wait_register cmdID aw = (ch, aw1)"
  shows "waiting cmdID ch aw1"
proof -
  have ch: "ch = allocated aw"
    and aw1: "aw1 = aw\<lparr>chans := (chans aw)(allocated aw := \<lparr>buf = [], chan_closed = False\<rparr>),
               allocated := Suc (allocated aw),
               waiters := (waiters aw)(cmdID \<mapsto> allocated aw)\<rparr>"
    using assms(2) by (auto simp add: Wait_register_def make_chan_def)
  have old: "\<And>c ch'. waiters aw c = Some ch' \<Longrightarrow> ch' \<noteq> allocated aw \<and> \<not> chan_closed (chans aw ch')"
    using assms(1) by (fastforce simp add: sound_def)
  have inj: "\<And>c c' ch'. waiters aw c = Some ch' \<Longrightarrow> waiters aw c' = Some ch' \<Longrightarrow> c = c'"
    using assms(1) unfolding sound_def by blast
  show ?thesis
    unfolding waiting_def ch aw1
    using old inj by (auto split: if_splits)
qed

lemma Notify_other_waiting:
  assumes "waiting cmdID ch aw" and "c \<noteq> cmdID"
  shows "\<exists>aw'. Notify c ack aw = Inr aw' \<and> waiting cmdID ch aw'"
proof (cases "waiters aw c")
  case None
  then show ?thesis
    using assms by (simp add: Notify_def Notify_lookup_def Notify_send_def)
next
  case (Some ch')
  have "ch' \<noteq> ch" and "\<not> chan_closed (chans aw ch')"
    using assms Some unfolding waiting_def by (metis option.inject, blast)
  then show ?thesis
    using assms(1) Some
    by (auto simp add: waiting_def Notify_def Notify_lookup_def Notify_send_def chan_try_send_def)
qed

lemma Cancel_other_waiting:
  assumes "waiting cmdID ch aw" and "c \<noteq> cmdID"
  shows "\<exists>aw'. Cancel c aw = Inr aw' \<and> waiting cmdID ch aw'"
proof (cases "waiters aw c")
  case None
  then show ?thesis
    using assms by (simp add: Cancel_def)
next
  case (Some ch')
  have ne: "ch' \<noteq> ch" and op: "\<not> chan_closed (chans aw ch')"
    using assms Some unfolding waiting_def by (metis option.inject, blast)
  have inj: "\<And>c'. waiters aw c' = Some ch' \<Longrightarrow> c' = c"
    using assms(1) Some unfolding waiting_def by blast
  let ?aw' = "aw\<lparr>chans := (chans aw)(ch' := (chans aw ch')\<lparr>chan_closed := True\<rparr>),
                 waiters := (waiters aw)(c := None)\<rparr>"
  have "Cancel c aw = Inr ?aw'"
    using Some op by (simp add: Cancel_def chan_close_def)
  moreover have "waiting cmdID ch ?aw'"
    using assms ne inj unfolding waiting_def by (auto split: if_splits)
  ultimately show ?thesis by blast
qed

lemma Wait_select_ready:
  "chan_try_recv ch aw = Some (ack, aw')
     \<Longrightarrow> Wait_select cmdID ch es aw = Wait_return cmdID ch ack None aw'"
  by (cases es) simp_all

lemma Wait_select_quiet:
  assumes "quiet cmdID pre" and "waiting cmdID ch aw"
  shows "\<exists>aw'. waiting cmdID ch aw' \<and> Wait_select cmdID ch (pre @ es) aw = Wait_select cmdID ch es aw'"
  using assms
proof (induction pre arbitrary: aw)
  case Nil
  then show ?case by auto
next
  case (Cons e pre)
  have blocked: "chan_try_recv ch aw = None"
    using Cons.prems(2) by (rule waiting_blocks)
  show ?case
  proof (cases e)
    case (EvNotify c ack)
    then have "c \<noteq> cmdID" and q: "quiet cmdID pre"
      using Cons.prems(1) by simp_all
    then obtain aw1 where 1: "Notify c ack aw = Inr aw1" and 2: "waiting cmdID ch aw1"
      using Notify_other_waiting [OF Cons.prems(2)] by blast
    from Cons.IH [OF q 2] show ?thesis
      using EvNotify blocked 1 by simp
  next
    case (EvCancel c)
    then have "c \<noteq> cmdID" and q: "quiet cmdID pre"
      using Cons.prems(1) by simp_all
    then obtain aw1 where 1: "Cancel c aw = Inr aw1" and 2: "waiting cmdID ch aw1"
      using Cancel_other_waiting [OF Cons.prems(2)] by blast
    from Cons.IH [OF q 2] show ?thesis
      using EvCancel blocked 1 by simp
  next
    case (EvSend c ack)
    then show ?thesis
      using Cons.prems(1) by simp
  next
    case EvDeadline
    then show ?thesis
      using Cons.prems(1) by simp
  qed
qed

lemma Wait_select_notified:
  assumes "waiting cmdID ch aw"
  shows "\<exists>aw'. Wait_select cmdID ch (EvNotify cmdID v # post) aw = Returned v None aw'
           \<and> waiters aw' cmdID = None \<and> chan_closed (chans aw' ch)"
proof -
  let ?aw1 = "aw\<lparr>chans := (chans aw)(ch := (chans aw ch)\<lparr>buf := [v]\<rparr>)\<rparr>"
  have n: "Notify cmdID v aw = Inr ?aw1"
    using assms unfolding waiting_def by (auto simp add: Notify_def Notify_lookup_def Notify_send_def chan_try_send_def)
  have r: "chan_try_recv ch ?aw1 = Some (v, ?aw1\<lparr>chans := (chans ?aw1)(ch := (chans ?aw1 ch)\<lparr>buf := []\<rparr>)\<rparr>)"
    by (simp add: chan_try_recv_def)
  have "Wait_select cmdID ch (EvNotify cmdID v # post) aw = Wait_select cmdID ch post ?aw1"
    using waiting_blocks [OF assms] n by simp
  also have "\<dots> = Wait_return cmdID ch v None (?aw1\<lparr>chans := (chans ?aw1)(ch := (chans ?aw1 ch)\<lparr>buf := []\<rparr>)\<rparr>)"
    using r by (rule Wait_select_ready)
  finally show ?thesis
    using assms by (simp add: Wait_return_def Wait_deferred_def chan_close_def waiting_def)
qed

lemma Wait_select_deadline:
  assumes "waiting cmdID ch aw"
  shows "\<exists>aw'. Wait_select cmdID ch (EvDeadline # post) aw
             = Returned None (Some (''ack timeout for command '' @ cmdID)) aw'
           \<and> waiters aw' cmdID = None \<and> chan_closed (chans aw' ch)"
  using assms waiting_blocks [OF assms]
  by (simp add: Wait_return_def Wait_deferred_def chan_close_def waiting_def)

lemma Notify_without_waiter: "waiters aw cmdID = None \<Longrightarrow> Notify cmdID v aw = Inr aw"
  by (simp add: Notify_def Notify_lookup_def Notify_send_def)

text \<open>
  As long as every \<open>Notify\<close> runs in one piece, the waiter gets what the claim of
  correlation promises: when the first event that concerns the command id is \<open>Notify\<close>
  with a value, \<open>Wait\<close> returns exactly that value and no error; when the deadline comes
  first, \<open>Wait\<close> returns the timeout error and no value; either way the slot is gone
  afterwards; and a \<open>Notify\<close> for a command id without a slot leaves the state as it is.
\<close>

lemma ack_correlation_uninterrupted:
  assumes "sound aw" and "quiet cmdID pre"
  shows "(\<exists>aw'. Wait cmdID (pre @ EvNotify cmdID v # post) aw = Returned v None aw'
            \<and> waiters aw' cmdID = None)
       \<and> (\<exists>aw'. Wait cmdID (pre @ EvDeadline # post) aw
              = Returned None (Some (''ack timeout for command '' @ cmdID)) aw'
            \<and> waiters aw' cmdID = None)
       \<and> (waiters aw cmdID = None \<longrightarrow> Notify cmdID v aw = Inr aw)"
proof -
  obtain ch aw1 where reg: "Wait_register cmdID aw = (ch, aw1)"
    by (cases "Wait_register cmdID aw")
  have w: "waiting cmdID ch aw1"
    using assms(1) reg by (rule Wait_register_waiting)
  obtain aw2 where w2: "waiting cmdID ch aw2"
    and s2: "Wait_select cmdID ch (pre @ EvNotify cmdID v # post) aw1
               = Wait_select cmdID ch (EvNotify cmdID v # post) aw2"
    using Wait_select_quiet [OF assms(2) w] by blast
  obtain aw3 where w3: "waiting cmdID ch aw3"
    and s3: "Wait_select cmdID ch (pre @ EvDeadline # post) aw1
               = Wait_select cmdID ch (EvDeadline # post) aw3"
    using Wait_select_quiet [OF assms(2) w] by blast
  have "\<exists>aw'. Wait cmdID (pre @ EvNotify cmdID v # post) aw = Returned v None aw'
            \<and> waiters aw' cmdID = None"
    using Wait_select_notified [OF w2, of v post] reg s2 by (auto simp add: Wait_def)
  moreover have "\<exists>aw'. Wait cmdID (pre @ EvDeadline # post) aw
              = Returned None (Some (''ack timeout for command '' @ cmdID)) aw'
            \<and> waiters aw' cmdID = None"
    using Wait_select_deadline [OF w3, of post] reg s3 by (auto simp add: Wait_def)
  ultimately show ?thesis
    by (simp add: Notify_without_waiter)
qed

text \<open>
  For every state and command id: a \<open>Notify\<close> that has looked up the slot of a waiter
  before the deadline and sends after the waiter has timed out, sends on the channel
  that the deferred function of \<open>Wait\<close> has closed.
\<close>

lemma late_send_panics:
  assumes "Wait_register cmdID aw = (ch, aw1)"
  shows "Notify_lookup cmdID aw1 = Some ch
       \<and> (\<exists>aw2. Wait_select cmdID ch (EvDeadline # es) aw1
                   = Returned None (Some (''ack timeout for command '' @ cmdID)) aw2
                \<and> Notify_send (Some ch) ack aw2 = Inl SendOnClosedChannel)"
proof -
  have r: "waiters aw1 cmdID = Some ch" "buf (chans aw1 ch) = []" "\<not> chan_closed (chans aw1 ch)"
    using assms by (auto simp add: Wait_register_def make_chan_def)
  have b: "chan_try_recv ch aw1 = None"
    using r by (simp add: chan_try_recv_def)
  let ?aw2 = "aw1\<lparr>waiters := (waiters aw1)(cmdID := None),
                  chans := (chans aw1)(ch := (chans aw1 ch)\<lparr>chan_closed := True\<rparr>)\<rparr>"
  have "Wait_select cmdID ch (EvDeadline # es) aw1
          = Returned None (Some (''ack timeout for command '' @ cmdID)) ?aw2"
    using b r by (simp add: Wait_return_def Wait_deferred_def chan_close_def)
  moreover have "Notify_send (Some ch) ack ?aw2 = Inl SendOnClosedChannel"
    by (simp add: Notify_send_def chan_try_send_def)
  ultimately show ?thesis
    using r(1) by (auto simp add: Notify_lookup_def)
qed

text \<open>
  Claim C3. ACK correlation: one waiter, of \<open>cmd-1\<close>, and a \<open>Notify\<close> for \<open>cmd-1\<close> that
  arrives before the deadline: its lookup finds the slot. The deadline passes before its
  send; \<open>Wait\<close> returns the timeout error, and its deferred function deletes the slot and
  closes the channel. The send of the \<open>Notify\<close>, now for a command id without a slot,
  is not dropped: it is made on the closed channel and panics.
\<close>

theorem notify_send_after_timeout_panics:
  "Notify_lookup ''cmd-1'' (snd (Wait_register ''cmd-1'' NewACKWaiter))
     = Some (fst (Wait_register ''cmd-1'' NewACKWaiter))
   \<and> fst (Wait_register ''cmd-1'' NewACKWaiter) = 0
   \<and> Wait ''cmd-1'' [EvDeadline] NewACKWaiter
     = Returned None (Some ''ack timeout for command cmd-1'') demo_timed_out
   \<and> waiters demo_timed_out ''cmd-1'' = None
   \<and> Notify_send (Some 0) (Some demo_ack) demo_timed_out = Inl SendOnClosedChannel"
proof -
  have "Wait ''cmd-1'' [EvDeadline] NewACKWaiter
     = Returned None (Some ''ack timeout for command cmd-1'') demo_timed_out"
    by (simp add: Wait_def Wait_register_def make_chan_def NewACKWaiter_def chan_try_recv_def
        chan_close_def Wait_return_def Wait_deferred_def demo_timed_out_def)
  moreover have "Notify_send (Some 0) (Some demo_ack) demo_timed_out = Inl SendOnClosedChannel"
    by (simp add: Notify_send_def chan_try_send_def demo_timed_out_def)
  moreover have "Notify_lookup ''cmd-1'' (snd (Wait_register ''cmd-1'' NewACKWaiter))
     = Some (fst (Wait_register ''cmd-1'' NewACKWaiter))"
    "fst (Wait_register ''cmd-1'' NewACKWaiter) = 0"
    "waiters demo_timed_out ''cmd-1'' = None"
    by (simp_all add: Notify_lookup_def Wait_register_def make_chan_def NewACKWaiter_def
        demo_timed_out_def)
  ultimately show ?thesis by simp
qed

text \<open>
  Claim C4. Slot life cycle: one waiter, and a \<open>Cancel\<close> of its command id while it is
  blocked. \<open>Cancel\<close> closes the channel and deletes the slot; the receive of the waiter
  then proceeds, and the deferred function of \<open>Wait\<close> closes the same channel a second
  time. The run ends in the panic of closing a closed channel.
\<close>

theorem cancel_then_wait_exit_double_close:
  "Wait ''cmd-1'' [EvCancel ''cmd-1''] NewACKWaiter = Panicked CloseOfClosedChannel"
  by (simp add: Wait_def Wait_register_def make_chan_def NewACKWaiter_def chan_try_recv_def
      Cancel_def chan_close_def Wait_return_def Wait_deferred_def)

text \<open>
  Claim C9. \<open>Cancel\<close> while \<open>Wait\<close> is blocked, from any state of the table and whatever
  happens afterwards: the closed channel does deliver its zero value and the \<open>select\<close>
  takes the branch \<open>return ack, nil\<close>, but the deferred function runs before the caller
  gets the two results and panics, so \<open>Wait\<close> does not return them.
\<close>

theorem cancel_while_blocked_panics:
  "Wait cmdID (EvCancel cmdID # es) aw = Panicked CloseOfClosedChannel"
proof -
  obtain ch aw1 where reg: "Wait_register cmdID aw = (ch, aw1)"
    by (cases "Wait_register cmdID aw")
  then have r: "waiters aw1 cmdID = Some ch" "buf (chans aw1 ch) = []" "\<not> chan_closed (chans aw1 ch)"
    by (auto simp add: Wait_register_def make_chan_def)
  let ?aw2 = "aw1\<lparr>chans := (chans aw1)(ch := (chans aw1 ch)\<lparr>chan_closed := True\<rparr>),
                  waiters := (waiters aw1)(cmdID := None)\<rparr>"
  have c: "Cancel cmdID aw1 = Inr ?aw2"
    using r by (simp add: Cancel_def chan_close_def)
  have b: "chan_try_recv ch aw1 = None"
    using r by (simp add: chan_try_recv_def)
  have z: "chan_try_recv ch ?aw2 = Some (None, ?aw2)"
    using r by (simp add: chan_try_recv_def)
  have "Wait cmdID (EvCancel cmdID # es) aw = Wait_select cmdID ch es ?aw2"
    using reg b c by (simp add: Wait_def)
  also have "\<dots> = Wait_return cmdID ch None None ?aw2"
    using z by (rule Wait_select_ready)
  also have "\<dots> = Panicked CloseOfClosedChannel"
    by (simp add: Wait_return_def Wait_deferred_def chan_close_def)
  finally show ?thesis .
qed
section \<open>Properties of the per-connection reader\<close>

lemma readLoop_return:
  "stopped srv \<or> closed (session_of srv p) \<Longrightarrow> readLoop J H clock p conn srv = Inr srv"
  by (simp add: readLoop.simps)

lemma readLoop_read_error:
  "ReadMessage conn = Inl err \<Longrightarrow> readLoop J H clock p conn srv = Inr srv"
  by (simp add: readLoop.simps)

lemma readLoop_handled:
  assumes "\<not> stopped srv" and "\<not> closed (session_of srv p)"
    and "ReadMessage conn = Inr (msg, rest)"
    and "handleMessage J H clock p msg srv = Inr (None, srv')"
  shows "readLoop J H clock p conn srv = readLoop J H clock p rest srv'"
  using assms by (subst readLoop.simps) simp

lemma readLoop_handler_error:
  assumes "\<not> stopped srv" and "\<not> closed (session_of srv p)"
    and "ReadMessage conn = Inr (msg, rest)"
    and "handleMessage J H clock p msg srv = Inr (Some err, srv')"
  shows "readLoop J H clock p conn srv = readLoop J H clock p rest (sendError J p 500 err srv')"
  using assms by (subst readLoop.simps) simp

lemma session_of_with_session [simp]:
  "session_of (with_session p f srv) q = (if q = p then f (session_of srv p) else session_of srv q)"
  by (simp add: session_of_def with_session_def)

lemma session_of_other_fields [simp]:
  "session_of (srv\<lparr>authenticator := a\<rparr>) q = session_of srv q"
  "session_of (srv\<lparr>ackWaiter := w\<rparr>) q = session_of srv q"
  by (simp_all add: session_of_def)

lemma with_session_fields [simp]:
  "stopped (with_session p f srv) = stopped srv"
  "authenticator (with_session p f srv) = authenticator srv"
  "ackWaiter (with_session p f srv) = ackWaiter srv"
  "sessions (sessionManager (with_session p f srv)) = sessions (sessionManager srv)"
  "snToID (sessionManager (with_session p f srv)) = snToID (sessionManager srv)"
  by (simp_all add: with_session_def)

lemma with_session_twice [simp]:
  "with_session p f (with_session p g srv) = with_session p (f \<circ> g) srv"
  by (simp add: with_session_def)

lemma SendMessage_open:
  "\<not> closed (session_of srv p) \<Longrightarrow>
     SendMessage p msg srv = (None, with_session p (\<lambda>s. s\<lparr>outbox := outbox s @ WriteMessage msg\<rparr>) srv)"
  by (simp add: SendMessage_def)

lemma handleAuth_failure:
  assumes "unmarshalAuth J (Payload msg) = Inr auth"
    and "VerifySignature H (authenticator srv) clock
           (aAppID auth) (aSN auth) (TS auth) (Nonce auth) (Sign auth) = (Some reason, a')"
    and "\<not> closed (session_of srv p)"
  shows "handleAuth J H clock p msg srv
           = (Some (''auth failed: '' @ reason),
              with_session p (\<lambda>s. s\<lparr>outbox := outbox s
                  @ WriteMessage (NewMessage TypeAuthOK (marshalAuthOK J False reason))\<rparr>)
                (srv\<lparr>authenticator := a'\<rparr>))"
proof -
  have "\<not> closed (session_of (srv\<lparr>authenticator := a'\<rparr>) p)"
    using assms(3) by simp
  then show ?thesis
    using assms(1,2) by (simp add: handleAuth_def sendAuthResult_def SendMessage_open)
qed

lemma readLoop_auth_failure:
  assumes "\<not> stopped srv" and "\<not> closed (session_of srv p)"
    and "ReadMessage conn = Inr (msg, rest)" and "Type msg = TypeAuth"
    and "unmarshalAuth J (Payload msg) = Inr auth"
    and "VerifySignature H (authenticator srv) clock
           (aAppID auth) (aSN auth) (TS auth) (Nonce auth) (Sign auth) = (Some reason, a')"
  shows "readLoop J H clock p conn srv
           = readLoop J H clock p rest
               (with_session p (\<lambda>s. s\<lparr>outbox := outbox s
                    @ WriteMessage (NewMessage TypeAuthOK (marshalAuthOK J False reason))
                    @ WriteMessage (NewMessage TypeErr
                        (marshalError J 500 (''auth failed: '' @ reason)))\<rparr>)
                  (srv\<lparr>authenticator := a'\<rparr>))"
proof -
  let ?srv1 = "with_session p (\<lambda>s. s\<lparr>outbox := outbox s
                  @ WriteMessage (NewMessage TypeAuthOK (marshalAuthOK J False reason))\<rparr>)
                (srv\<lparr>authenticator := a'\<rparr>)"
  have h: "handleMessage J H clock p msg srv = Inr (Some (''auth failed: '' @ reason), ?srv1)"
    using assms(4) handleAuth_failure [OF assms(5,6,2)] by (simp add: handleMessage_def)
  have o: "\<not> closed (session_of ?srv1 p)"
    using assms(2) by simp
  have "sendError J p 500 (''auth failed: '' @ reason) ?srv1
          = with_session p (\<lambda>s. s\<lparr>outbox := outbox s
                    @ WriteMessage (NewMessage TypeAuthOK (marshalAuthOK J False reason))
                    @ WriteMessage (NewMessage TypeErr
                        (marshalError J 500 (''auth failed: '' @ reason)))\<rparr>)
                  (srv\<lparr>authenticator := a'\<rparr>)"
    unfolding sendError_def SendMessage_open [OF o]
    by (simp add: comp_def)
  then show ?thesis
    using readLoop_handler_error [OF assms(1,2,3) h] by simp
qed


lemma readLoop_nil: "readLoop J H clock p [] srv = Inr srv"
  by (rule readLoop_read_error [of "[]" ErrReadLength]) (simp add: ReadMessage_def)

lemma ReadMessage_NewMessage:
  assumes "length data + 2 \<le> 2 ^ 20"
  shows "ReadMessage (WriteMessage (NewMessage t data) @ rest) = Inr (NewMessage t data, rest)"
  using assms by (intro ReadMessage_WriteMessage) (simp_all add: NewMessage_def)

lemma UpdatePing_with_session:
  "srv\<lparr>sessionManager := UpdatePing p clock (sessionManager srv)\<rparr>
     = with_session p (\<lambda>s. s\<lparr>LastPing := clock\<rparr>) srv"
  by (simp add: UpdatePing_def with_session_def)

lemma Session_Close_with_session:
  "srv\<lparr>sessionManager := Session_Close p (sessionManager srv)\<rparr>
     = with_session p (\<lambda>s. s\<lparr>closed := True\<rparr>) srv"
  by (simp add: Session_Close_def with_session_def)

lemma handlePing_open:
  assumes "\<not> closed (session_of srv p)" and "unmarshalPing J (Payload msg) = Inr t"
  shows "handlePing J clock p msg srv
           = (None, with_session p (\<lambda>s. s\<lparr>LastPing := clock, outbox := outbox s
                 @ WriteMessage (NewMessage TypePong (marshalPong J (Unix clock)))\<rparr>) srv)"
proof -
  have "\<not> closed (session_of (with_session p (\<lambda>s. s\<lparr>LastPing := clock\<rparr>) srv) p)"
    using assms(1) by simp
  then show ?thesis
    using assms(2)
    by (simp add: handlePing_def UpdatePing_with_session SendMessage_open comp_def)
qed

lemma SendMessage_indices:
  "sessions (sessionManager (snd (SendMessage p msg srv))) = sessions (sessionManager srv)"
  "snToID (sessionManager (snd (SendMessage p msg srv))) = snToID (sessionManager srv)"
  by (simp_all add: SendMessage_def)

lemma handleAuth_success_indices:
  assumes "unmarshalAuth J (Payload msg) = Inr auth"
    and "VerifySignature H (authenticator srv) clock
           (aAppID auth) (aSN auth) (TS auth) (Nonce auth) (Sign auth) = (None, a')"
    and "aSN auth \<noteq> []"
  shows "fst (handleAuth J H clock p msg srv) = None"
    and "sessions (sessionManager (snd (handleAuth J H clock p msg srv))) (ID (session_of srv p))
           = Some p"
    and "snToID (sessionManager (snd (handleAuth J H clock p msg srv))) (aSN auth)
           = Some (ID (session_of srv p))"
proof -
  define srv2 where "srv2 = with_session p
      (\<lambda>s. s\<lparr>SN := aSN auth, AppID := aAppID auth, Meta := aMeta auth\<rparr>)
      (srv\<lparr>authenticator := a'\<rparr>)"
  define m where "m = sessionManager srv2"
  have h: "handleAuth J H clock p msg srv
             = (None, sendAuthResult J p True ''authenticated'' (srv2\<lparr>sessionManager := Add p m\<rparr>))"
    using assms(1,2) by (simp add: handleAuth_def Let_def srv2_def m_def)
  have f: "ID (heap m p) = ID (session_of srv p)" "SN (heap m p) = aSN auth"
    by (simp_all add: m_def srv2_def with_session_def session_of_def)
  have idx: "sessions (sessionManager (snd (handleAuth J H clock p msg srv))) = sessions (Add p m)"
    "snToID (sessionManager (snd (handleAuth J H clock p msg srv))) = snToID (Add p m)"
    by (simp_all add: h sendAuthResult_def SendMessage_indices)
  show "fst (handleAuth J H clock p msg srv) = None"
    by (simp add: h)
  show "sessions (sessionManager (snd (handleAuth J H clock p msg srv))) (ID (session_of srv p))
           = Some p"
    using Add_sessions_self [of p m] by (simp add: idx f)
  show "snToID (sessionManager (snd (handleAuth J H clock p msg srv))) (aSN auth)
           = Some (ID (session_of srv p))"
    using Add_snToID_self [of m p] assms(3) by (simp add: idx f)
qed

text \<open>
  What the Auth handler does to the manager, run without interference, is the step
  \<open>auth\<close> of the orderly runs, followed by the frame with the result.
\<close>

lemma SendMessage_manager:
  "sessionManager (snd (SendMessage p msg srv)) = sessionManager srv
   \<or> sessionManager (snd (SendMessage p msg srv))
       = append_outbox p (WriteMessage msg) (sessionManager srv)"
  by (simp add: SendMessage_def with_session_def append_outbox_def)

lemma SendMessage_orderly:
  "orderly (sessionManager srv) \<Longrightarrow> orderly (sessionManager (snd (SendMessage p msg srv)))"
  using SendMessage_manager [of p msg srv] by (auto intro: orderly.send)

lemma handleAuth_orderly:
  assumes "orderly (sessionManager srv)"
  shows "orderly (sessionManager (snd (handleAuth J H clock p msg srv)))"
proof (cases "unmarshalAuth J (Payload msg)")
  case (Inl err)
  then show ?thesis
    using assms by (simp add: handleAuth_def)
next
  case (Inr auth)
  obtain res a' where v: "VerifySignature H (authenticator srv) clock
      (aAppID auth) (aSN auth) (TS auth) (Nonce auth) (Sign auth) = (res, a')"
    by (cases "VerifySignature H (authenticator srv) clock
      (aAppID auth) (aSN auth) (TS auth) (Nonce auth) (Sign auth)")
  show ?thesis
  proof (cases res)
    case (Some err)
    have "orderly (sessionManager (srv\<lparr>authenticator := a'\<rparr>))"
      using assms by simp
    then show ?thesis
      using Inr v Some
      by (simp add: handleAuth_def sendAuthResult_def SendMessage_orderly)
  next
    case None
    let ?srv3 = "(with_session p
        (\<lambda>s. s\<lparr>SN := aSN auth, AppID := aAppID auth, Meta := aMeta auth\<rparr>)
        (srv\<lparr>authenticator := a'\<rparr>))
      \<lparr>sessionManager := Add p (set_identity p (aSN auth) (aAppID auth) (aMeta auth)
          (sessionManager srv))\<rparr>"
    have m: "sessionManager (with_session p
        (\<lambda>s. s\<lparr>SN := aSN auth, AppID := aAppID auth, Meta := aMeta auth\<rparr>)
        (srv\<lparr>authenticator := a'\<rparr>))
      = set_identity p (aSN auth) (aAppID auth) (aMeta auth) (sessionManager srv)"
      by (simp add: with_session_def set_identity_def)
    have "orderly (sessionManager ?srv3)"
      using assms by (simp add: orderly.auth)
    then have "orderly (sessionManager (snd (SendMessage p
        (NewMessage TypeAuthOK (marshalAuthOK J True ''authenticated'')) ?srv3)))"
      by (rule SendMessage_orderly)
    then show ?thesis
      using Inr v None m
      by (simp add: handleAuth_def sendAuthResult_def Let_def)
  qed
qed

lemma GetBySN_closed: "closed (heap m p) \<Longrightarrow> GetBySN sn m \<noteq> Some p"
  by (auto simp add: GetBySN_def IsClosed_def split: option.splits)

text \<open>
  Claim C5 (as amended). On an Auth frame whose verification fails, the Auth handler
  writes \<open>AuthOK{success:false, message:reason}\<close> and returns the error
  \<open>auth failed: reason\<close>; the reader answers that error with an \<open>Err\<close> frame of code 500
  and goes on with the rest of the stream: the session is not closed, the server is not
  stopped, and the session is not put into the manager.
\<close>

theorem auth_failure_replies_and_keeps_reading:
  assumes "\<not> stopped srv" and "\<not> closed (session_of srv p)"
    and "ReadMessage conn = Inr (msg, rest)" and "Type msg = TypeAuth"
    and "unmarshalAuth J (Payload msg) = Inr auth"
    and "VerifySignature H (authenticator srv) clock
           (aAppID auth) (aSN auth) (TS auth) (Nonce auth) (Sign auth) = (Some reason, a')"
  shows "\<exists>srv1 srv2.
           handleMessage J H clock p msg srv = Inr (Some (''auth failed: '' @ reason), srv1)
         \<and> outbox (session_of srv1 p) = outbox (session_of srv p)
              @ WriteMessage (NewMessage TypeAuthOK (marshalAuthOK J False reason))
         \<and> readLoop J H clock p conn srv = readLoop J H clock p rest srv2
         \<and> outbox (session_of srv2 p) = outbox (session_of srv1 p)
              @ WriteMessage (NewMessage TypeErr (marshalError J 500 (''auth failed: '' @ reason)))
         \<and> \<not> closed (session_of srv2 p) \<and> \<not> stopped srv2
         \<and> sessions (sessionManager srv2) = sessions (sessionManager srv)
         \<and> snToID (sessionManager srv2) = snToID (sessionManager srv)
         \<and> authenticator srv2 = a'"
proof -
  let ?srv1 = "with_session p (\<lambda>s. s\<lparr>outbox := outbox s
                  @ WriteMessage (NewMessage TypeAuthOK (marshalAuthOK J False reason))\<rparr>)
                (srv\<lparr>authenticator := a'\<rparr>)"
  let ?srv2 = "with_session p (\<lambda>s. s\<lparr>outbox := outbox s
                    @ WriteMessage (NewMessage TypeAuthOK (marshalAuthOK J False reason))
                    @ WriteMessage (NewMessage TypeErr
                        (marshalError J 500 (''auth failed: '' @ reason)))\<rparr>)
                  (srv\<lparr>authenticator := a'\<rparr>)"
  have "handleMessage J H clock p msg srv = Inr (Some (''auth failed: '' @ reason), ?srv1)"
    using assms(4) handleAuth_failure [OF assms(5,6,2)] by (simp add: handleMessage_def)
  moreover have "outbox (session_of ?srv1 p) = outbox (session_of srv p)
              @ WriteMessage (NewMessage TypeAuthOK (marshalAuthOK J False reason))"
    by simp
  moreover have "readLoop J H clock p conn srv = readLoop J H clock p rest ?srv2"
    using assms by (rule readLoop_auth_failure)
  moreover have "outbox (session_of ?srv2 p) = outbox (session_of ?srv1 p)
              @ WriteMessage (NewMessage TypeErr (marshalError J 500 (''auth failed: '' @ reason)))"
    by simp
  moreover have "\<not> closed (session_of ?srv2 p)" "\<not> stopped ?srv2"
    "sessions (sessionManager ?srv2) = sessions (sessionManager srv)"
    "snToID (sessionManager ?srv2) = snToID (sessionManager srv)"
    "authenticator ?srv2 = a'"
    using assms(1,2) by simp_all
  ultimately show ?thesis by blast
qed

text \<open>
  Claim C6 (as amended). On a read error the reader returns and its deferred call closes
  the session, so that \<open>GetBySN\<close> does not return it any more; the reader does not call
  \<open>Remove\<close>, and both indices of the manager are what they were before the read.
\<close>

theorem read_error_closes_without_removing:
  assumes "ReadMessage conn = Inl err"
  shows "reader J H clock p conn srv
           = Inr (srv\<lparr>sessionManager := Session_Close p (sessionManager srv)\<rparr>)
       \<and> closed (heap (Session_Close p (sessionManager srv)) p)
       \<and> sessions (Session_Close p (sessionManager srv)) = sessions (sessionManager srv)
       \<and> snToID (Session_Close p (sessionManager srv)) = snToID (sessionManager srv)
       \<and> (\<forall>sn. GetBySN sn (Session_Close p (sessionManager srv)) \<noteq> Some p)"
proof -
  have "reader J H clock p conn srv
           = Inr (srv\<lparr>sessionManager := Session_Close p (sessionManager srv)\<rparr>)"
    using readLoop_read_error [OF assms] by (simp add: reader_def)
  moreover have c: "closed (heap (Session_Close p (sessionManager srv)) p)"
    by (simp add: Session_Close_def)
  moreover have "sessions (Session_Close p (sessionManager srv)) = sessions (sessionManager srv)"
    "snToID (Session_Close p (sessionManager srv)) = snToID (sessionManager srv)"
    by (simp_all add: Session_Close_def)
  moreover have "\<forall>sn. GetBySN sn (Session_Close p (sessionManager srv)) \<noteq> Some p"
    using c by (simp add: GetBySN_closed)
  ultimately show ?thesis by simp
qed


lemma demo_fresh_session:
  "\<not> stopped (with_session 7 (\<lambda>_. NewSession ''uuid-7'' ''10.0.0.7:5000'' demo_clock) demo_server)"
  "\<not> closed (session_of
         (with_session 7 (\<lambda>_. NewSession ''uuid-7'' ''10.0.0.7:5000'' demo_clock) demo_server) 7)"
  "ID (session_of
         (with_session 7 (\<lambda>_. NewSession ''uuid-7'' ''10.0.0.7:5000'' demo_clock) demo_server) 7)
     = ''uuid-7''"
  "outbox (session_of
         (with_session 7 (\<lambda>_. NewSession ''uuid-7'' ''10.0.0.7:5000'' demo_clock) demo_server) 7)
     = []"
  "authenticator (with_session 7 (\<lambda>_. NewSession ''uuid-7'' ''10.0.0.7:5000'' demo_clock) demo_server)
     = demo_auth"
  by (simp_all add: demo_server_def NewServer_def NewSession_def demo_auth_def)

lemma demo_unknown_appid:
  "VerifySignature demo_H demo_auth demo_clock (aAppID (demo_handshake ''ZZ''))
      (aSN (demo_handshake ''ZZ'')) (TS (demo_handshake ''ZZ'')) (Nonce (demo_handshake ''ZZ''))
      (Sign (demo_handshake ''ZZ''))
     = (Some ''invalid appid'', demo_auth)"
  by (simp add: VerifySignature_def demo_handshake_def demo_auth_def NewAuthenticator_def)

lemma demo_good_handshake:
  "VerifySignature demo_H demo_auth demo_clock (aAppID (demo_handshake ''A1''))
      (aSN (demo_handshake ''A1'')) (TS (demo_handshake ''A1'')) (Nonce (demo_handshake ''A1''))
      (Sign (demo_handshake ''A1''))
     = (None, snd (verifyNonce demo_auth demo_clock ''n1''))"
proof -
  have k: "keys demo_auth ''A1'' = Some ''K_SECRET_ABC''"
    by (simp add: demo_auth_def NewAuthenticator_def)
  have t: "verifyTimestamp demo_auth demo_clock 1700000000 = None"
    by (simp add: verifyTimestamp_def demo_auth_def NewAuthenticator_def demo_clock_def
        Unix_def abs_int64_def word_sless_alt)
  have f: "\<not> HasNonce (nonceStore demo_auth) ''n1''"
    by (simp add: HasNonce_def demo_auth_def NewAuthenticator_def NewMemoryNonceStore_def)
  show ?thesis
    using VerifySignature_signature_last [OF k t f, of demo_H "''SN1''"
        "calculateSignature demo_H ''A1'' ''SN1'' 1700000000 ''n1'' ''K_SECRET_ABC''"]
    by (simp add: demo_handshake_def)
qed

theorem auth_failure_replies_and_keeps_reading_witness:
  "\<exists>srv2. readLoop demo_J demo_H demo_clock 7
             (WriteMessage (NewMessage TypeAuth [2]) @ WriteMessage (NewMessage TypePing []))
             (with_session 7 (\<lambda>_. NewSession ''uuid-7'' ''10.0.0.7:5000'' demo_clock) demo_server)
           = readLoop demo_J demo_H demo_clock 7 (WriteMessage (NewMessage TypePing [])) srv2
         \<and> \<not> closed (session_of srv2 7) \<and> \<not> stopped srv2"
proof -
  let ?srv0 = "with_session 7 (\<lambda>_. NewSession ''uuid-7'' ''10.0.0.7:5000'' demo_clock) demo_server"
  have r: "ReadMessage (WriteMessage (NewMessage TypeAuth [2]) @ WriteMessage (NewMessage TypePing []))
             = Inr (NewMessage TypeAuth [2], WriteMessage (NewMessage TypePing []))"
    by (rule ReadMessage_NewMessage) simp
  have t: "Type (NewMessage TypeAuth [2]) = TypeAuth"
    by (simp add: NewMessage_def)
  have u: "unmarshalAuth demo_J (Payload (NewMessage TypeAuth [2])) = Inr (demo_handshake ''ZZ'')"
    by (simp add: demo_J_def NewMessage_def)
  have v: "VerifySignature demo_H (authenticator ?srv0) demo_clock (aAppID (demo_handshake ''ZZ''))
      (aSN (demo_handshake ''ZZ'')) (TS (demo_handshake ''ZZ'')) (Nonce (demo_handshake ''ZZ''))
      (Sign (demo_handshake ''ZZ'')) = (Some ''invalid appid'', demo_auth)"
    by (simp only: demo_fresh_session demo_unknown_appid)
  from auth_failure_replies_and_keeps_reading [OF demo_fresh_session(1,2) r t u v]
  show ?thesis by blast
qed

text \<open>
  The claim as first stated has the reader return after a failed handshake. Here a
  handshake with an unknown appid is followed by a Ping on the same connection: the
  connection receives the negative \<open>AuthOK\<close>, the \<open>Err\<close> frame and then the \<open>Pong\<close>.
\<close>

theorem auth_failure_connection_stays_open_counterexample:
  "fst (VerifySignature demo_H demo_auth demo_clock ''ZZ'' ''SN1'' 1700000000 ''n1''
          (calculateSignature demo_H ''A1'' ''SN1'' 1700000000 ''n1'' ''K_SECRET_ABC''))
     = Some ''invalid appid''
   \<and> sent_on 7 (handleConnection demo_J demo_H demo_clock 7 ''uuid-7'' ''10.0.0.7:5000''
        (WriteMessage (NewMessage TypeAuth [2]) @ WriteMessage (NewMessage TypePing []))
        demo_server)
     = Some (WriteMessage (NewMessage TypeAuthOK (marshalAuthOK demo_J False ''invalid appid''))
        @ WriteMessage (NewMessage TypeErr (marshalError demo_J 500 ''auth failed: invalid appid''))
        @ WriteMessage (NewMessage TypePong (marshalPong demo_J (Unix demo_clock))))"
proof -
  let ?srv0 = "with_session 7 (\<lambda>_. NewSession ''uuid-7'' ''10.0.0.7:5000'' demo_clock) demo_server"
  let ?ok = "WriteMessage (NewMessage TypeAuthOK (marshalAuthOK demo_J False ''invalid appid''))"
  let ?er = "WriteMessage (NewMessage TypeErr (marshalError demo_J 500 ''auth failed: invalid appid''))"
  let ?po = "WriteMessage (NewMessage TypePong (marshalPong demo_J (Unix demo_clock)))"
  let ?srv2 = "with_session 7 (\<lambda>s. s\<lparr>outbox := outbox s @ ?ok @ ?er\<rparr>)
                 (?srv0\<lparr>authenticator := demo_auth\<rparr>)"
  let ?srv3 = "with_session 7 (\<lambda>s. s\<lparr>LastPing := demo_clock, outbox := outbox s @ ?po\<rparr>) ?srv2"
  have r: "ReadMessage (WriteMessage (NewMessage TypeAuth [2]) @ WriteMessage (NewMessage TypePing []))
             = Inr (NewMessage TypeAuth [2], WriteMessage (NewMessage TypePing []))"
    by (rule ReadMessage_NewMessage) simp
  have t: "Type (NewMessage TypeAuth [2]) = TypeAuth"
    by (simp add: NewMessage_def)
  have u: "unmarshalAuth demo_J (Payload (NewMessage TypeAuth [2])) = Inr (demo_handshake ''ZZ'')"
    by (simp add: demo_J_def NewMessage_def)
  have v: "VerifySignature demo_H (authenticator ?srv0) demo_clock (aAppID (demo_handshake ''ZZ''))
      (aSN (demo_handshake ''ZZ'')) (TS (demo_handshake ''ZZ'')) (Nonce (demo_handshake ''ZZ''))
      (Sign (demo_handshake ''ZZ'')) = (Some ''invalid appid'', demo_auth)"
    by (simp only: demo_fresh_session demo_unknown_appid)
  have step1: "readLoop demo_J demo_H demo_clock 7
        (WriteMessage (NewMessage TypeAuth [2]) @ WriteMessage (NewMessage TypePing [])) ?srv0
      = readLoop demo_J demo_H demo_clock 7 (WriteMessage (NewMessage TypePing [])) ?srv2"
    using readLoop_auth_failure [OF demo_fresh_session(1,2) r t u v] by simp
  have o2: "\<not> stopped ?srv2" "\<not> closed (session_of ?srv2 7)"
    using demo_fresh_session(1,2) by simp_all
  have r2: "ReadMessage (WriteMessage (NewMessage TypePing [])) = Inr (NewMessage TypePing [], [])"
    using ReadMessage_NewMessage [of "[]" TypePing "[]"] by simp
  have h2: "handleMessage demo_J demo_H demo_clock 7 (NewMessage TypePing []) ?srv2 = Inr (None, ?srv3)"
  proof -
    have "unmarshalPing demo_J (Payload (NewMessage TypePing [])) = Inr 0"
      by (simp add: demo_J_def)
    from handlePing_open [OF o2(2) this, of demo_clock] show ?thesis
      by (simp add: handleMessage_def NewMessage_def TypePing_def TypeAuth_def)
  qed
  have step2: "readLoop demo_J demo_H demo_clock 7 (WriteMessage (NewMessage TypePing [])) ?srv2
      = Inr ?srv3"
    using readLoop_handled [OF o2 r2 h2] by (simp add: readLoop_nil)
  have "sent_on 7 (handleConnection demo_J demo_H demo_clock 7 ''uuid-7'' ''10.0.0.7:5000''
        (WriteMessage (NewMessage TypeAuth [2]) @ WriteMessage (NewMessage TypePing []))
        demo_server) = Some (?ok @ ?er @ ?po)"
    unfolding handleConnection_def reader_def step1 step2
    using demo_fresh_session(4)
    by (simp add: sent_on_def Session_Close_with_session)
  moreover have "fst (VerifySignature demo_H demo_auth demo_clock ''ZZ'' ''SN1'' 1700000000 ''n1''
          (calculateSignature demo_H ''A1'' ''SN1'' 1700000000 ''n1'' ''K_SECRET_ABC''))
     = Some ''invalid appid''"
    using demo_unknown_appid by (simp add: demo_handshake_def)
  ultimately show ?thesis by simp
qed

theorem read_error_closes_without_removing_witness:
  "reader demo_J demo_H demo_clock 1 [0, 0, 0, 1, 1]
      (demo_server\<lparr>sessionManager := Add 1 (NewSessionManager demo_heap)\<rparr>)
     = Inr (demo_server\<lparr>sessionManager := Session_Close 1 (Add 1 (NewSessionManager demo_heap))\<rparr>)
   \<and> sessions (Session_Close 1 (Add 1 (NewSessionManager demo_heap)))
       = sessions (Add 1 (NewSessionManager demo_heap))
   \<and> snToID (Session_Close 1 (Add 1 (NewSessionManager demo_heap)))
       = snToID (Add 1 (NewSessionManager demo_heap))
   \<and> sessions (Add 1 (NewSessionManager demo_heap)) ''id-1'' = Some 1
   \<and> snToID (Add 1 (NewSessionManager demo_heap)) ''SN1'' = Some ''id-1''"
proof -
  have e: "ReadMessage [0, 0, 0, 1, 1] = Inl ErrTooShort"
    by (simp add: ReadMessage_def Uint32_def MaxMessageSize_def)
  have i: "sessions (Add 1 (NewSessionManager demo_heap)) ''id-1'' = Some 1"
    "snToID (Add 1 (NewSessionManager demo_heap)) ''SN1'' = Some ''id-1''"
    by (simp_all add: Add_def evict_def NewSessionManager_def demo_heap_def NewSession_def Let_def)
  from read_error_closes_without_removing [OF e, of demo_J demo_H demo_clock 1
      "demo_server\<lparr>sessionManager := Add 1 (NewSessionManager demo_heap)\<rparr>"] i
  show ?thesis by simp
qed

text \<open>
  The claim as first stated has the session in neither index after the reader exits. Here
  a device authenticates and the stream ends: the read fails, the reader exits, and both
  indices still hold the session.
\<close>

theorem read_error_leaves_session_registered_counterexample:
  "ReadMessage [] = Inl ErrReadLength
   \<and> id_index_after (handleConnection demo_J demo_H demo_clock 7 ''uuid-7'' ''10.0.0.7:5000''
        (WriteMessage (NewMessage TypeAuth [1])) demo_server) ''uuid-7'' = Some 7
   \<and> sn_index_after (handleConnection demo_J demo_H demo_clock 7 ''uuid-7'' ''10.0.0.7:5000''
        (WriteMessage (NewMessage TypeAuth [1])) demo_server) ''SN1'' = Some ''uuid-7''"
proof -
  let ?srv0 = "with_session 7 (\<lambda>_. NewSession ''uuid-7'' ''10.0.0.7:5000'' demo_clock) demo_server"
  let ?A = "NewMessage TypeAuth [1]"
  let ?srv1 = "snd (handleAuth demo_J demo_H demo_clock 7 ?A ?srv0)"
  have r: "ReadMessage (WriteMessage ?A) = Inr (?A, [])"
    using ReadMessage_NewMessage [of "[1]" TypeAuth "[]"] by simp
  have u: "unmarshalAuth demo_J (Payload ?A) = Inr (demo_handshake ''A1'')"
    by (simp add: demo_J_def NewMessage_def)
  have v: "VerifySignature demo_H (authenticator ?srv0) demo_clock (aAppID (demo_handshake ''A1''))
      (aSN (demo_handshake ''A1'')) (TS (demo_handshake ''A1'')) (Nonce (demo_handshake ''A1''))
      (Sign (demo_handshake ''A1'')) = (None, snd (verifyNonce demo_auth demo_clock ''n1''))"
    by (simp only: demo_fresh_session demo_good_handshake)
  have n: "aSN (demo_handshake ''A1'') \<noteq> []" and sn: "aSN (demo_handshake ''A1'') = ''SN1''"
    by (simp_all add: demo_handshake_def)
  note ok = handleAuth_success_indices [OF u v n, of 7]
  have h: "handleMessage demo_J demo_H demo_clock 7 ?A ?srv0 = Inr (None, ?srv1)"
    using ok(1) by (simp add: handleMessage_def NewMessage_def prod_eq_iff)
  have loop: "readLoop demo_J demo_H demo_clock 7 (WriteMessage ?A) ?srv0 = Inr ?srv1"
    using readLoop_handled [OF demo_fresh_session(1,2) r h] by (simp add: readLoop_nil)
  have "id_index_after (handleConnection demo_J demo_H demo_clock 7 ''uuid-7'' ''10.0.0.7:5000''
        (WriteMessage ?A) demo_server) ''uuid-7'' = Some 7"
    unfolding handleConnection_def reader_def loop
    using ok(2) by (simp add: id_index_after_def Session_Close_def NewSession_def)
  moreover have "sn_index_after (handleConnection demo_J demo_H demo_clock 7 ''uuid-7''
        ''10.0.0.7:5000'' (WriteMessage ?A) demo_server) ''SN1'' = Some ''uuid-7''"
    unfolding handleConnection_def reader_def loop
    using ok(3) by (simp add: sn_index_after_def Session_Close_def NewSession_def sn)
  moreover have "ReadMessage [] = Inl ErrReadLength"
    by (simp add: ReadMessage_def)
  ultimately show ?thesis by simp
qed

end
